theory Spec2Isabelle
  imports Complex_Main
begin

section \<open>Tensors of the framework\<close>

text \<open>
  The notebooks compute with the tensors of an external framework. A tensor is modelled
  by its shape and its elements in row-major order; the elements are mathematical reals,
  so rounding is outside the model, and so are devices. The element type of a tensor is
  modelled where it decides whether an operation raises, in the generation of the data
  set.
\<close>

record tensor =
  shape :: "nat list"
  elems :: "real list"

text \<open>\<open>t * c\<close> and \<open>c * t\<close> for a number \<open>c\<close>: a new tensor of the same shape.\<close>

definition mul_scalar :: "tensor \<Rightarrow> real \<Rightarrow> tensor" where
  "mul_scalar t c = t\<lparr>elems := map (\<lambda>x. x * c) (elems t)\<rparr>"

definition scalar_mul :: "real \<Rightarrow> tensor \<Rightarrow> tensor" where
  "scalar_mul c t = t\<lparr>elems := map (\<lambda>x. c * x) (elems t)\<rparr>"

text \<open>\<open>t.norm().item()\<close>, the 2-norm of all elements, and \<open>t.sum().item()\<close>.\<close>

definition norm_t :: "tensor \<Rightarrow> real" where
  "norm_t t = sqrt (\<Sum>x\<leftarrow>elems t. x\<^sup>2)"

definition sum_t :: "tensor \<Rightarrow> real" where
  "sum_t t = sum_list (elems t)"

section \<open>Automatic differentiation notebook: the control-flow function \<open>f\<close>\<close>

text \<open>
  \<^verbatim>\<open>
  def f(a):
      b = a * 2
      while b.norm().item() < 1000:
          b = b * 2
      if b.sum().item() > 0:
          c = b
      else:
          c = 100 * b
      return c
  \<close>
  The while loop may run forever, so it is a partial function into \<open>option\<close>:
  \<open>None\<close> is the loop that never exits.
\<close>

partial_function (option) f_loop :: "tensor \<Rightarrow> tensor option" where
  "f_loop b = (if norm_t b < 1000 then f_loop (mul_scalar b 2) else Some b)"

definition f :: "tensor \<Rightarrow> tensor option" where
  "f a = (case f_loop (mul_scalar a 2) of
            None \<Rightarrow> None
          | Some b \<Rightarrow> Some (if sum_t b > 0 then b else scalar_mul 100 b))"

text \<open>
  The specification's \<open>k\<close> for a scalar input \<open>x\<close>: the least number of doublings of
  \<open>2 * x\<close> that makes its absolute value at least 1000.
\<close>

definition doublings :: "real \<Rightarrow> nat" where
  "doublings x = (LEAST k. 1000 \<le> \<bar>2 * x\<bar> * 2 ^ k)"

section \<open>Linear regression notebook: generating the data set\<close>

text \<open>
  Failures are values. \<open>IndexError\<close>, \<open>RuntimeError\<close> and \<open>AssertionError\<close> are the
  exceptions the notebook code and the framework raise; \<open>OutsideModel\<close> marks the
  framework behaviours this model does not cover and the notebooks never reach: a left
  operand of \<open>@\<close> that is not two-dimensional, an in-place addition whose operand
  would have to be broadcast or converted, and a bias or a loss that would have to
  broadcast its operand.
\<close>

datatype error = IndexError | RuntimeError | AssertionError | OutsideModel

type_synonym addr = nat

text \<open>
  In this function the element type of a tensor decides whether an operation raises, so
  the tensor objects carry it: \<open>torch.float32\<close> is the type of a \<open>torch.FloatTensor\<close>.
  The elements themselves stay reals.
\<close>

datatype dtype = Float32 | Float64 | Int32 | Int64 | Bool

definition is_floating :: "dtype \<Rightarrow> bool" where
  "is_floating t = (t = Float32 \<or> t = Float64)"

record tensor_object = tensor +
  dtype :: dtype

text \<open>
  Tensors are objects: \<open>y += ...\<close> changes the object \<open>y\<close> names, the other operations
  make new objects. The store holds the tensor objects by address (allocation appends)
  and counts the samples the framework's global random generator has handed out.
\<close>

record store =
  heap :: "tensor_object list"
  rng :: nat

text \<open>
  What the model takes from the framework as given: the stream of standard normal
  samples its generator produces, and the default element type, which is the type of
  the tensors it creates when none is asked for: \<open>torch.float32\<close> unless the default
  has been changed, and always a floating type.
\<close>

record framework =
  standard_normal :: "nat \<Rightarrow> real"
  default_dtype :: dtype

definition alloc :: "tensor_object \<Rightarrow> store \<Rightarrow> addr \<times> store" where
  "alloc t s = (length (heap s), s\<lparr>heap := heap s @ [t]\<rparr>)"

text \<open>
  \<open>torch.normal(mean, std, size)\<close>: a new tensor of shape \<open>size\<close> and of the default
  element type, filled with the next samples.
\<close>

definition drawn :: "framework \<Rightarrow> real \<Rightarrow> real \<Rightarrow> nat list \<Rightarrow> nat \<Rightarrow> tensor_object" where
  "drawn fw mean std sz r =
     \<lparr>shape = sz, elems = map (\<lambda>i. mean + std * standard_normal fw (r + i)) [0..<prod_list sz],
      dtype = default_dtype fw\<rparr>"

definition normal :: "framework \<Rightarrow> real \<Rightarrow> real \<Rightarrow> nat list \<Rightarrow> store \<Rightarrow> addr \<times> store" where
  "normal fw mean std sz s = alloc (drawn fw mean std sz (rng s)) (s\<lparr>rng := rng s + prod_list sz\<rparr>)"

text \<open>\<open>t.shape[i]\<close> for a nonnegative \<open>i\<close>.\<close>

definition shape_index :: "tensor_object \<Rightarrow> nat \<Rightarrow> error + nat" where
  "shape_index t i = (if i < length (shape t) then Inr (shape t ! i) else Inl IndexError)"

text \<open>
  The product of an \<open>n \<times> d\<close> and a \<open>d \<times> q\<close> matrix, both row-major, and \<open>x @ w\<close> for
  a two-dimensional \<open>x\<close>: a matrix-vector product for a one-dimensional \<open>w\<close>, a matrix
  product for a two-dimensional \<open>w\<close>, and for more dimensions one matrix product per
  matrix of the batch \<open>w\<close>, the result having the batch dimensions of \<open>w\<close> in front.
  The contracted dimensions must agree, and so must the element types of \<open>x\<close> and
  \<open>w\<close>: \<open>@\<close> does not convert its operands, it raises.
\<close>

definition mm :: "nat \<Rightarrow> nat \<Rightarrow> nat \<Rightarrow> real list \<Rightarrow> real list \<Rightarrow> real list" where
  "mm n d q xs ws =
     concat (map (\<lambda>i. map (\<lambda>c. \<Sum>j\<leftarrow>[0..<d]. xs ! (i * d + j) * ws ! (j * q + c)) [0..<q]) [0..<n])"

definition matmul :: "tensor_object \<Rightarrow> tensor_object \<Rightarrow> error + tensor_object" where
  "matmul x w =
     (let sx = shape x; sw = shape w in
      if length sx \<noteq> 2 then Inl OutsideModel
      else if length sw = 0 then Inl RuntimeError
      else if dtype x \<noteq> dtype w then Inl RuntimeError
      else
        let n = sx ! 0; d = sx ! 1 in
        if length sw = 1 then
          (if sw ! 0 = d then
             Inr \<lparr>shape = [n], elems = mm n d 1 (elems x) (elems w), dtype = dtype x\<rparr>
           else Inl RuntimeError)
        else
          let batch = take (length sw - 2) sw; p = sw ! (length sw - 2); q = sw ! (length sw - 1) in
          if p = d then
            Inr \<lparr>shape = batch @ [n, q],
                 elems = concat (map (\<lambda>bi. mm n d q (elems x) (take (p * q) (drop (bi * (p * q)) (elems w))))
                                   [0..<prod_list batch]),
                 dtype = dtype x\<rparr>
          else Inl RuntimeError)"

text \<open>
  \<open>t + c\<close> for a Python float \<open>c\<close>: a new tensor, of the element type of \<open>t\<close> when that
  is a floating type and of the default element type otherwise.
\<close>

definition add_scalar :: "framework \<Rightarrow> addr \<Rightarrow> real \<Rightarrow> store \<Rightarrow> addr \<times> store" where
  "add_scalar fw a c s =
     alloc \<lparr>shape = shape (heap s ! a), elems = map (\<lambda>v. v + c) (elems (heap s ! a)),
            dtype = (if is_floating (dtype (heap s ! a)) then dtype (heap s ! a)
                     else default_dtype fw)\<rparr> s"

text \<open>
  \<open>a += other\<close> for tensors of one shape and one element type: the object at \<open>a\<close> is
  updated in place.
\<close>

definition iadd :: "addr \<Rightarrow> addr \<Rightarrow> store \<Rightarrow> error + store" where
  "iadd a other s =
     (if shape (heap s ! other) = shape (heap s ! a) \<and> dtype (heap s ! other) = dtype (heap s ! a)
      then
        Inr (s\<lparr>heap := (heap s)[a := (heap s ! a)\<lparr>elems :=
                         map2 (+) (elems (heap s ! a)) (elems (heap s ! other))\<rparr>]\<rparr>)
      else Inl OutsideModel)"

text \<open>
  \<open>t.type(torch.FloatTensor)\<close>: the tensor itself when it already is a
  \<open>torch.FloatTensor\<close>, a new tensor converted to \<open>torch.float32\<close> (with the same
  elements, in this model) otherwise. It never changes \<open>t\<close>.
\<close>

definition tensor_type :: "addr \<Rightarrow> store \<Rightarrow> addr \<times> store" where
  "tensor_type a s =
     (if dtype (heap s ! a) = Float32 then (a, s) else alloc ((heap s ! a)\<lparr>dtype := Float32\<rparr>) s)"

text \<open>
  \<^verbatim>\<open>
  def synthetic_data(w, b, num_examples):
      X = torch.normal(0, 1, (num_examples, w.shape[0]))
      y = X @ w + b
      y += torch.normal(0, 0.01, size=y.shape)
      assert X.shape[0] == y.shape[0], f"..."
      X.type(torch.FloatTensor)
      y.type(torch.FloatTensor)
      return X, y
  \<close>
  The argument \<open>w\<close> is the address of the weight tensor; the result is the pair of the
  addresses of \<open>X\<close> and \<open>y\<close> with the store after the call.
\<close>

definition synthetic_data ::
  "framework \<Rightarrow> addr \<Rightarrow> real \<Rightarrow> nat \<Rightarrow> store \<Rightarrow> error + ((addr \<times> addr) \<times> store)" where
  "synthetic_data fw w b num_examples s =
     (case shape_index (heap s ! w) 0 of Inl e \<Rightarrow> Inl e | Inr d \<Rightarrow>
      (case normal fw 0 1 [num_examples, d] s of (X, s1) \<Rightarrow>
      (case matmul (heap s1 ! X) (heap s1 ! w) of Inl e \<Rightarrow> Inl e | Inr xw \<Rightarrow>
      (case alloc xw s1 of (t, s2) \<Rightarrow>
      (case add_scalar fw t b s2 of (y, s3) \<Rightarrow>
      (case normal fw 0 0.01 (shape (heap s3 ! y)) s3 of (noise, s4) \<Rightarrow>
      (case iadd y noise s4 of Inl e \<Rightarrow> Inl e | Inr s5 \<Rightarrow>
      (case shape_index (heap s5 ! X) 0 of Inl e \<Rightarrow> Inl e | Inr x0 \<Rightarrow>
      (case shape_index (heap s5 ! y) 0 of Inl e \<Rightarrow> Inl e | Inr y0 \<Rightarrow>
       if x0 \<noteq> y0 then Inl AssertionError
       else
      (case tensor_type X s5 of (_, s6) \<Rightarrow>
      (case tensor_type y s6 of (_, s7) \<Rightarrow>
       Inr ((X, y), s7))))))))))))"

text \<open>
  For comparison: the same function with the two statements \<open>X.type(torch.FloatTensor)\<close>
  and \<open>y.type(torch.FloatTensor)\<close> deleted.
\<close>

definition synthetic_data_without_type ::
  "framework \<Rightarrow> addr \<Rightarrow> real \<Rightarrow> nat \<Rightarrow> store \<Rightarrow> error + ((addr \<times> addr) \<times> store)" where
  "synthetic_data_without_type fw w b num_examples s =
     (case shape_index (heap s ! w) 0 of Inl e \<Rightarrow> Inl e | Inr d \<Rightarrow>
      (case normal fw 0 1 [num_examples, d] s of (X, s1) \<Rightarrow>
      (case matmul (heap s1 ! X) (heap s1 ! w) of Inl e \<Rightarrow> Inl e | Inr xw \<Rightarrow>
      (case alloc xw s1 of (t, s2) \<Rightarrow>
      (case add_scalar fw t b s2 of (y, s3) \<Rightarrow>
      (case normal fw 0 0.01 (shape (heap s3 ! y)) s3 of (noise, s4) \<Rightarrow>
      (case iadd y noise s4 of Inl e \<Rightarrow> Inl e | Inr s5 \<Rightarrow>
      (case shape_index (heap s5 ! X) 0 of Inl e \<Rightarrow> Inl e | Inr x0 \<Rightarrow>
      (case shape_index (heap s5 ! y) 0 of Inl e \<Rightarrow> Inl e | Inr y0 \<Rightarrow>
       if x0 \<noteq> y0 then Inl AssertionError
       else Inr ((X, y), s5))))))))))"

text \<open>
  Inputs for the examples: a sample stream; the framework as the notebook runs it and
  one whose default element type is \<open>torch.float64\<close>; and stores whose only object is a
  weight: \<open>true_w\<close> of the notebook, the same in \<open>torch.float64\<close>, a vector, the same
  vector of integers, a batch of two matrices and a tensor of no dimensions.
\<close>

definition count_up :: "nat \<Rightarrow> real" where
  "count_up i = real i"

definition fw_example :: framework where
  "fw_example = \<lparr>standard_normal = count_up, default_dtype = Float32\<rparr>"

definition fw_double :: framework where
  "fw_double = \<lparr>standard_normal = count_up, default_dtype = Float64\<rparr>"

definition store_true_w :: store where
  "store_true_w =
     \<lparr>heap = [\<lparr>shape = [2, 1], elems = [2, - 34 / 10], dtype = Float32\<rparr>], rng = 0\<rparr>"

definition store_double_w :: store where
  "store_double_w =
     \<lparr>heap = [\<lparr>shape = [2, 1], elems = [2, - 34 / 10], dtype = Float64\<rparr>], rng = 0\<rparr>"

definition store_vector_w :: store where
  "store_vector_w = \<lparr>heap = [\<lparr>shape = [2], elems = [2, 1], dtype = Float32\<rparr>], rng = 0\<rparr>"

definition store_int_w :: store where
  "store_int_w = \<lparr>heap = [\<lparr>shape = [2], elems = [2, 1], dtype = Int64\<rparr>], rng = 0\<rparr>"

definition store_batch_w :: store where
  "store_batch_w =
     \<lparr>heap = [\<lparr>shape = [2, 2, 1], elems = [1, 2, 3, 4], dtype = Float32\<rparr>], rng = 0\<rparr>"

definition store_scalar_w :: store where
  "store_scalar_w = \<lparr>heap = [\<lparr>shape = [], elems = [2], dtype = Float32\<rparr>], rng = 0\<rparr>"

section \<open>Linear regression notebook: reading the data\<close>

text \<open>
  \<^verbatim>\<open>
  def load_array(data_arrays, batch_size, is_train=True):
      dataset = TensorDataset(*(features, labels))
      dataloader = DataLoader(dataset=dataset, batch_size=batch_size, shuffle=True)
      return dataloader
  \<close>
  \<open>features\<close> and \<open>labels\<close> are the module-level names bound by the cell before.
  \<open>TensorDataset\<close> and \<open>DataLoader\<close> are the framework's constructors; they are
  parameters of the model, so that \<open>load_array\<close> returns what they return and raises
  what they raise. \<open>DataLoader\<close> takes the arguments \<open>dataset\<close>, \<open>batch_size\<close> and
  \<open>shuffle\<close>.
\<close>

record 't globals =
  features :: 't
  labels :: 't

definition load_array ::
  "('t list \<Rightarrow> error + 'ds) \<Rightarrow> ('ds \<Rightarrow> 'bs \<Rightarrow> bool \<Rightarrow> error + 'dl) \<Rightarrow> 't globals \<Rightarrow>
   'arrays \<Rightarrow> 'bs \<Rightarrow> bool \<Rightarrow> error + 'dl" where
  "load_array TensorDataset DataLoader g data_arrays batch_size is_train =
     (case TensorDataset [features g, labels g] of
        Inl e \<Rightarrow> Inl e
      | Inr dataset \<Rightarrow>
          (case DataLoader dataset batch_size True of
             Inl e \<Rightarrow> Inl e
           | Inr dataloader \<Rightarrow> Inr dataloader))"

section \<open>Tensors that record their history\<close>

text \<open>
  The framework records, for each tensor computed from a tensor that requires a
  gradient, the operation that made it (its \<open>grad_fn\<close>) with the tensors the operation
  saved. A leaf that requires a gradient is known by its identity; a tensor that needs
  no gradient has no history.
\<close>

datatype graph =
    NoGrad
  | Leaf nat
  | TBackward graph
  | MmBackward graph tensor graph tensor
  | MulBackward graph real
  | AddmmBackward graph graph tensor graph tensor
  | MseLossBackward graph tensor tensor
  | ViewBackward graph "nat list"

record variable =
  val :: tensor
  history :: graph

definition plain :: "tensor \<Rightarrow> variable" where
  "plain t = \<lparr>val = t, history = NoGrad\<rparr>"

text \<open>\<open>v.grad_fn\<close>: the name of the recorded operation, \<open>None\<close> for a leaf.\<close>

fun grad_fn :: "graph \<Rightarrow> string option" where
  "grad_fn NoGrad = None"
| "grad_fn (Leaf i) = None"
| "grad_fn (TBackward a) = Some ''TBackward''"
| "grad_fn (MmBackward a av b bv) = Some ''MmBackward''"
| "grad_fn (MulBackward a c) = Some ''MulBackward''"
| "grad_fn (AddmmBackward b x xv w wv) = Some ''AddmmBackward''"
| "grad_fn (MseLossBackward a av t) = Some ''MseLossBackward''"
| "grad_fn (ViewBackward a sh) = Some ''ViewBackward''"

text \<open>An operation records a node only when an operand has a history.\<close>

definition record1 :: "graph \<Rightarrow> graph \<Rightarrow> graph" where
  "record1 a node = (if a = NoGrad then NoGrad else node)"

definition record2 :: "graph \<Rightarrow> graph \<Rightarrow> graph \<Rightarrow> graph" where
  "record2 a b node = (if a = NoGrad \<and> b = NoGrad then NoGrad else node)"

subsection \<open>Matrix operations on row-major elements\<close>

text \<open>The transpose of an \<open>r \<times> c\<close> matrix, and the sums of the columns of an \<open>n \<times> q\<close> matrix.\<close>

definition transpose2 :: "nat \<Rightarrow> nat \<Rightarrow> real list \<Rightarrow> real list" where
  "transpose2 r c xs = concat (map (\<lambda>j. map (\<lambda>i. xs ! (i * c + j)) [0..<r]) [0..<c])"

definition column_sums :: "nat \<Rightarrow> nat \<Rightarrow> real list \<Rightarrow> real list" where
  "column_sums n q xs = map (\<lambda>c. \<Sum>i\<leftarrow>[0..<n]. xs ! (i * q + c)) [0..<q]"

text \<open>
  On tensors of two dimensions. These are total; the operations below check the shapes
  before they use them.
\<close>

definition transposed :: "tensor \<Rightarrow> tensor" where
  "transposed t =
     \<lparr>shape = [shape t ! 1, shape t ! 0], elems = transpose2 (shape t ! 0) (shape t ! 1) (elems t)\<rparr>"

definition product :: "tensor \<Rightarrow> tensor \<Rightarrow> tensor" where
  "product a b =
     \<lparr>shape = [shape a ! 0, shape b ! 1],
      elems = mm (shape a ! 0) (shape a ! 1) (shape b ! 1) (elems a) (elems b)\<rparr>"

definition add_t :: "tensor \<Rightarrow> tensor \<Rightarrow> tensor" where
  "add_t a b = \<lparr>shape = shape a, elems = map2 (+) (elems a) (elems b)\<rparr>"

definition sub_t :: "tensor \<Rightarrow> tensor \<Rightarrow> tensor" where
  "sub_t a b = \<lparr>shape = shape a, elems = map2 (-) (elems a) (elems b)\<rparr>"

subsection \<open>Recorded operations\<close>

text \<open>\<open>x.t()\<close>: the transpose of a matrix; a tensor of fewer dimensions is returned as it is.\<close>

definition tensor_t :: "variable \<Rightarrow> error + variable" where
  "tensor_t x =
     (if length (shape (val x)) < 2 then Inr x
      else if length (shape (val x)) = 2 then
        Inr \<lparr>val = transposed (val x), history = record1 (history x) (TBackward (history x))\<rparr>
      else Inl RuntimeError)"

text \<open>\<open>torch.mm(a, b)\<close>: both are matrices and the inner dimensions agree.\<close>

definition torch_mm :: "variable \<Rightarrow> variable \<Rightarrow> error + variable" where
  "torch_mm a b =
     (if length (shape (val a)) = 2 \<and> length (shape (val b)) = 2 \<and>
         shape (val a) ! 1 = shape (val b) ! 0
      then Inr \<lparr>val = product (val a) (val b),
                history = record2 (history a) (history b)
                            (MmBackward (history a) (val a) (history b) (val b))\<rparr>
      else Inl RuntimeError)"

text \<open>\<open>c * x\<close> for a number \<open>c\<close>.\<close>

definition number_mul :: "real \<Rightarrow> variable \<Rightarrow> variable" where
  "number_mul c x =
     \<lparr>val = scalar_mul c (val x), history = record1 (history x) (MulBackward (history x) c)\<rparr>"

text \<open>\<open>x.view(-1, c)\<close>: the same elements in rows of length \<open>c\<close>.\<close>

definition view_rows :: "variable \<Rightarrow> nat \<Rightarrow> error + variable" where
  "view_rows x c =
     (if c = 0 \<or> prod_list (shape (val x)) mod c \<noteq> 0 then Inl RuntimeError
      else Inr \<lparr>val = \<lparr>shape = [prod_list (shape (val x)) div c, c], elems = elems (val x)\<rparr>,
                history = record1 (history x) (ViewBackward (history x) (shape (val x)))\<rparr>)"

subsection \<open>Backpropagation\<close>

text \<open>
  \<open>backprop node g grads\<close> passes the gradient \<open>g\<close> of the output of \<open>node\<close> down to the
  leaves by the chain rule and adds what arrives at a leaf to the gradient stored for it.
\<close>

fun backprop :: "graph \<Rightarrow> tensor \<Rightarrow> (nat \<Rightarrow> tensor option) \<Rightarrow> (nat \<Rightarrow> tensor option)" where
  "backprop NoGrad g grads = grads"
| "backprop (Leaf i) g grads =
     grads(i := Some (case grads i of None \<Rightarrow> g | Some old \<Rightarrow> add_t old g))"
| "backprop (TBackward a) g grads = backprop a (transposed g) grads"
| "backprop (MmBackward a av b bv) g grads =
     backprop b (product (transposed av) g) (backprop a (product g (transposed bv)) grads)"
| "backprop (MulBackward a c) g grads = backprop a (scalar_mul c g) grads"
| "backprop (AddmmBackward b x xv w wv) g grads =
     backprop w (product (transposed xv) g)
       (backprop x (product g (transposed wv))
         (backprop b \<lparr>shape = [shape g ! 1], elems = column_sums (shape g ! 0) (shape g ! 1) (elems g)\<rparr>
            grads))"
| "backprop (MseLossBackward a av target) g grads =
     backprop a (scalar_mul (hd (elems g)) (scalar_mul 2 (sub_t av target))) grads"
| "backprop (ViewBackward a sh) g grads = backprop a \<lparr>shape = sh, elems = elems g\<rparr> grads"

text \<open>
  \<open>v.backward()\<close>: \<open>v\<close> must have a history and a single element; the gradient of \<open>v\<close>
  with respect to itself is one.
\<close>

definition backward :: "variable \<Rightarrow> (nat \<Rightarrow> tensor option) \<Rightarrow> error + (nat \<Rightarrow> tensor option)" where
  "backward v grads =
     (if history v = NoGrad \<or> length (elems (val v)) \<noteq> 1 then Inl RuntimeError
      else Inr (backprop (history v) \<lparr>shape = shape (val v), elems = [1]\<rparr> grads))"


section \<open>Models, loss and optimizer\<close>

text \<open>
  A parameter is a leaf that requires a gradient: its identity, its data and the gradient
  stored for it (\<open>None\<close> until a backward pass reaches it).
\<close>

record parameter =
  ident :: nat
  data :: tensor
  grad :: "tensor option"

text \<open>
  \<open>nn.Linear(in_features, out_features)\<close> has a weight of shape
  \<open>(out_features, in_features)\<close> and a bias of shape \<open>(out_features)\<close>; the framework draws
  their initial values (here: from \<open>init\<close>). The parameters get the identities \<open>i\<close> and
  \<open>i + 1\<close>.
\<close>

record Linear =
  weight :: parameter
  bias :: parameter

definition new_Linear :: "nat \<Rightarrow> nat \<Rightarrow> nat \<Rightarrow> (nat \<Rightarrow> real) \<Rightarrow> Linear" where
  "new_Linear i in_features out_features init =
     \<lparr>weight = \<lparr>ident = i,
                 data = \<lparr>shape = [out_features, in_features],
                         elems = map init [0..<out_features * in_features]\<rparr>,
                 grad = None\<rparr>,
      bias = \<lparr>ident = i + 1,
               data = \<lparr>shape = [out_features],
                       elems = map (\<lambda>k. init (out_features * in_features + k)) [0..<out_features]\<rparr>,
               grad = None\<rparr>\<rparr>"

text \<open>
  The layer applied to \<open>x\<close>: \<open>x W\<^sup>T + b\<close> on the last dimension of \<open>x\<close>, which must be
  \<open>in_features\<close>. On a matrix this is one \<open>addmm\<close>; an input of another number of
  dimensions is viewed as a matrix of rows first and the result viewed back.
\<close>

definition addmm :: "nat \<Rightarrow> nat \<Rightarrow> nat \<Rightarrow> real list \<Rightarrow> real list \<Rightarrow> real list \<Rightarrow> real list" where
  "addmm n d q bs xs ws =
     concat (map (\<lambda>i. map (\<lambda>c. bs ! c + (\<Sum>j\<leftarrow>[0..<d]. xs ! (i * d + j) * ws ! (j * q + c))) [0..<q])
              [0..<n])"

definition Linear_forward :: "Linear \<Rightarrow> variable \<Rightarrow> error + variable" where
  "Linear_forward l x =
     (let W = data (weight l); b = data (bias l); sx = shape (val x) in
      if length (shape W) \<noteq> 2 \<or> sx = [] then Inl RuntimeError
      else if last sx \<noteq> shape W ! 1 then Inl RuntimeError
      else if shape b \<noteq> [shape W ! 0] then Inl OutsideModel
      else
        let rows = prod_list (butlast sx);
            xm = (if length sx = 2 then x
                  else \<lparr>val = \<lparr>shape = [rows, shape W ! 1], elems = elems (val x)\<rparr>,
                        history = record1 (history x) (ViewBackward (history x) sx)\<rparr>);
            wt = transposed W;
            out = \<lparr>val = \<lparr>shape = [rows, shape W ! 0],
                           elems = addmm rows (shape W ! 1) (shape W ! 0) (elems b) (elems (val xm)) (elems wt)\<rparr>,
                   history = AddmmBackward (Leaf (ident (bias l))) (history xm) (val xm)
                               (TBackward (Leaf (ident (weight l)))) wt\<rparr>
        in if length sx = 2 then Inr out
           else Inr \<lparr>val = \<lparr>shape = butlast sx @ [shape W ! 0], elems = elems (val out)\<rparr>,
                     history = ViewBackward (history out) (shape (val out))\<rparr>)"

text \<open>
  \<^verbatim>\<open>
  class LinearRegressionModel(torch.nn.Module):
      def __init__(self):
          super().__init__()
          self.layer1 = torch.nn.Linear(2, 1, bias=True)

      def forward(self, x):
          y_pred = self.layer1(x)
          return y_pred
  \<close>
\<close>

record LinearRegressionModel =
  layer1 :: Linear

definition LinearRegressionModel_init :: "(nat \<Rightarrow> real) \<Rightarrow> LinearRegressionModel" where
  "LinearRegressionModel_init init = \<lparr>layer1 = new_Linear 0 2 1 init\<rparr>"

definition forward :: "LinearRegressionModel \<Rightarrow> variable \<Rightarrow> error + variable" where
  "forward self x =
     (case Linear_forward (layer1 self) x of Inl e \<Rightarrow> Inl e | Inr y_pred \<Rightarrow> Inr y_pred)"

text \<open>
  The softmax regression notebook:
  \<^verbatim>\<open>
  class Reshape(torch.nn.Module):
      def forward(self, x):
          return x.view(-1, 784)

  net = nn.Sequential(Reshape(), nn.Linear(784, 10))
  \<close>
  A \<open>Sequential\<close> applies its modules in order, each to the output of the one before.
\<close>

datatype module = Reshape | LinearModule Linear

definition Reshape_forward :: "variable \<Rightarrow> error + variable" where
  "Reshape_forward x = view_rows x 784"

fun module_forward :: "module \<Rightarrow> variable \<Rightarrow> error + variable" where
  "module_forward Reshape x = Reshape_forward x"
| "module_forward (LinearModule l) x = Linear_forward l x"

fun Sequential_forward :: "module list \<Rightarrow> variable \<Rightarrow> error + variable" where
  "Sequential_forward [] x = Inr x"
| "Sequential_forward (m # ms) x =
     (case module_forward m x of Inl e \<Rightarrow> Inl e | Inr y \<Rightarrow> Sequential_forward ms y)"

definition softmax_net :: "(nat \<Rightarrow> real) \<Rightarrow> module list" where
  "softmax_net init = [Reshape, LinearModule (new_Linear 0 784 10 init)]"

text \<open>
  \<open>loss = torch.nn.MSELoss(reduction="sum")\<close>, called on a prediction and a target of
  the same shape: the sum of the squared differences, a tensor of no dimensions.
\<close>

definition MSELoss_sum :: "variable \<Rightarrow> tensor \<Rightarrow> error + variable" where
  "MSELoss_sum input target =
     (if shape (val input) \<noteq> shape target then Inl OutsideModel
      else Inr \<lparr>val = \<lparr>shape = [], elems = [\<Sum>(a, b)\<leftarrow>zip (elems (val input)) (elems target). (a - b)\<^sup>2]\<rparr>,
                history = record1 (history input)
                            (MseLossBackward (history input) (val input) target)\<rparr>)"

text \<open>\<open>l.item()\<close> of a tensor with one element.\<close>

definition item :: "tensor \<Rightarrow> real" where
  "item x = hd (elems x)"

text \<open>
  \<open>trainer = torch.optim.SGD(net.parameters(), lr=0.03)\<close>. The parameters of the model
  are the weight and the bias of its layer. \<open>zero_grad\<close> resets their gradients, a
  backward pass stores the gradients by the identities of the leaves, and \<open>step\<close>
  replaces the data of every parameter that has a gradient by \<open>data - lr * grad\<close>.
\<close>

definition zero_grad :: "LinearRegressionModel \<Rightarrow> LinearRegressionModel" where
  "zero_grad net =
     net\<lparr>layer1 := (layer1 net)\<lparr>weight := (weight (layer1 net))\<lparr>grad := None\<rparr>,
                                 bias := (bias (layer1 net))\<lparr>grad := None\<rparr>\<rparr>\<rparr>"

definition grads_of :: "LinearRegressionModel \<Rightarrow> nat \<Rightarrow> tensor option" where
  "grads_of net i =
     (if i = ident (weight (layer1 net)) then grad (weight (layer1 net))
      else if i = ident (bias (layer1 net)) then grad (bias (layer1 net))
      else None)"

definition with_grads :: "(nat \<Rightarrow> tensor option) \<Rightarrow> LinearRegressionModel \<Rightarrow> LinearRegressionModel" where
  "with_grads gs net =
     net\<lparr>layer1 := (layer1 net)\<lparr>weight := (weight (layer1 net))\<lparr>grad := gs (ident (weight (layer1 net)))\<rparr>,
                                 bias := (bias (layer1 net))\<lparr>grad := gs (ident (bias (layer1 net)))\<rparr>\<rparr>\<rparr>"

definition sgd_update :: "real \<Rightarrow> parameter \<Rightarrow> parameter" where
  "sgd_update lr p =
     (case grad p of None \<Rightarrow> p | Some g \<Rightarrow> p\<lparr>data := sub_t (data p) (scalar_mul lr g)\<rparr>)"

definition step :: "real \<Rightarrow> LinearRegressionModel \<Rightarrow> LinearRegressionModel" where
  "step lr net =
     net\<lparr>layer1 := (layer1 net)\<lparr>weight := sgd_update lr (weight (layer1 net)),
                                 bias := sgd_update lr (bias (layer1 net))\<rparr>\<rparr>"

section \<open>Linear regression notebook: training\<close>

text \<open>
  \<^verbatim>\<open>
  num_epochs = 3
  for epoch in range(num_epochs):
      for X, y in data_iter:
          l = loss(net(X), y)
          trainer.zero_grad()
          l.backward()
          trainer.step()
      l_epoch = loss(net(features), labels)
      print('epoch {}, loss {}'.format(epoch + 1, l_epoch))
  \<close>
  The body of the inner loop, for one mini-batch. It returns the model after the body
  and the loss tensor \<open>l\<close>.
\<close>

definition lr :: real where
  "lr = 3 / 100"

definition train_step ::
  "LinearRegressionModel \<Rightarrow> tensor \<Rightarrow> tensor \<Rightarrow> error + (LinearRegressionModel \<times> variable)" where
  "train_step net X y =
     (case forward net (plain X) of Inl e \<Rightarrow> Inl e | Inr out \<Rightarrow>
      (case MSELoss_sum out y of Inl e \<Rightarrow> Inl e | Inr l \<Rightarrow>
       let net1 = zero_grad net in
       (case backward l (grads_of net1) of Inl e \<Rightarrow> Inl e | Inr gs \<Rightarrow>
        Inr (step lr (with_grads gs net1), l))))"

text \<open>
  The inner loop over the mini-batches of one pass, and the outer loop. \<open>data_iter k\<close>
  is the list of mini-batches that iterating the data loader yields in pass \<open>k\<close>: their
  order and composition are the framework's. What \<open>print\<close> writes is kept as the list
  of the lines, a line being the two arguments of \<open>format\<close>.
\<close>

datatype line = EpochLoss nat real

fun epoch_pass :: "LinearRegressionModel \<Rightarrow> (tensor \<times> tensor) list \<Rightarrow> error + LinearRegressionModel" where
  "epoch_pass net [] = Inr net"
| "epoch_pass net ((X, y) # batches) =
     (case train_step net X y of Inl e \<Rightarrow> Inl e | Inr (net', l) \<Rightarrow> epoch_pass net' batches)"

definition full_loss :: "LinearRegressionModel \<Rightarrow> tensor globals \<Rightarrow> error + real" where
  "full_loss net g =
     (case forward net (plain (features g)) of Inl e \<Rightarrow> Inl e | Inr out \<Rightarrow>
      (case MSELoss_sum out (labels g) of Inl e \<Rightarrow> Inl e | Inr l_epoch \<Rightarrow> Inr (item (val l_epoch))))"

fun epochs_loop ::
  "(nat \<Rightarrow> (tensor \<times> tensor) list) \<Rightarrow> tensor globals \<Rightarrow> nat list \<Rightarrow>
   LinearRegressionModel \<Rightarrow> line list \<Rightarrow> error + (LinearRegressionModel \<times> line list)" where
  "epochs_loop data_iter g [] net out = Inr (net, out)"
| "epochs_loop data_iter g (epoch # epochs) net out =
     (case epoch_pass net (data_iter epoch) of Inl e \<Rightarrow> Inl e | Inr net' \<Rightarrow>
      (case full_loss net' g of Inl e \<Rightarrow> Inl e | Inr l_epoch \<Rightarrow>
       epochs_loop data_iter g epochs net' (out @ [EpochLoss (epoch + 1) l_epoch])))"

definition num_epochs :: nat where
  "num_epochs = 3"

definition training ::
  "(nat \<Rightarrow> (tensor \<times> tensor) list) \<Rightarrow> tensor globals \<Rightarrow> LinearRegressionModel \<Rightarrow>
   error + (LinearRegressionModel \<times> line list)" where
  "training data_iter g net =
     epochs_loop data_iter g [0..<num_epochs] net []"

section \<open>Automatic differentiation notebook: the simple example\<close>

text \<open>
  \<^verbatim>\<open>
  x = Variable(torch.arange(4, dtype=torch.float32).reshape((4, 1)), requires_grad=True)
  y = 2 * torch.mm(x.t(), x)
  y.backward()
  print("x.grad:", x.grad)
  print("x.grad_fn:", x.grad_fn)
  print((x.grad - 4 * x).norm().item() == 0)
  \<close>
  \<open>x\<close> is the leaf with identity 0, and no gradient is stored for it before the backward
  pass. \<open>simple_example\<close> returns \<open>x\<close>, \<open>y\<close> and \<open>x.grad\<close> after \<open>y.backward()\<close>;
  \<open>gradient_check\<close> is the value of the last comparison.
\<close>

definition arange :: "nat \<Rightarrow> tensor" where
  "arange n = \<lparr>shape = [n], elems = map real [0..<n]\<rparr>"

definition reshape :: "tensor \<Rightarrow> nat list \<Rightarrow> error + tensor" where
  "reshape a sh =
     (if prod_list sh = prod_list (shape a) then Inr (a\<lparr>shape := sh\<rparr>) else Inl RuntimeError)"

definition Variable :: "tensor \<Rightarrow> bool \<Rightarrow> nat \<Rightarrow> variable" where
  "Variable a requires_grad i = \<lparr>val = a, history = (if requires_grad then Leaf i else NoGrad)\<rparr>"

definition simple_example :: "error + (variable \<times> variable \<times> tensor option)" where
  "simple_example =
     (case reshape (arange 4) [4, 1] of Inl e \<Rightarrow> Inl e | Inr a \<Rightarrow>
      let x = Variable a True 0 in
      (case tensor_t x of Inl e \<Rightarrow> Inl e | Inr xt \<Rightarrow>
      (case torch_mm xt x of Inl e \<Rightarrow> Inl e | Inr m \<Rightarrow>
       let y = number_mul 2 m in
       (case backward y (\<lambda>i. None) of Inl e \<Rightarrow> Inl e | Inr grads \<Rightarrow>
        Inr (x, y, grads 0)))))"

definition gradient_check :: "variable \<Rightarrow> tensor \<Rightarrow> bool" where
  "gradient_check x x_grad = (norm_t (sub_t x_grad (scalar_mul 4 (val x))) = 0)"

section \<open>Quantities of the specification\<close>

text \<open>
  For a batch with features \<open>xs\<close> (rows of length 2) and labels \<open>ys\<close>, and the parameters
  \<open>w0\<close>, \<open>w1\<close>, \<open>b\<close>: the prediction for row \<open>i\<close>, its error, and the sum of the squared
  errors over \<open>m\<close> rows.
\<close>

definition prediction :: "real list \<Rightarrow> real \<Rightarrow> real \<Rightarrow> real \<Rightarrow> nat \<Rightarrow> real" where
  "prediction xs w0 w1 b i = xs ! (i * 2) * w0 + xs ! (i * 2 + 1) * w1 + b"

definition residual :: "real list \<Rightarrow> real list \<Rightarrow> real \<Rightarrow> real \<Rightarrow> real \<Rightarrow> nat \<Rightarrow> real" where
  "residual xs ys w0 w1 b i = prediction xs w0 w1 b i - ys ! i"

definition sse :: "nat \<Rightarrow> real list \<Rightarrow> real list \<Rightarrow> real \<Rightarrow> real \<Rightarrow> real \<Rightarrow> real" where
  "sse m xs ys w0 w1 b = (\<Sum>i\<leftarrow>[0..<m]. (residual xs ys w0 w1 b i)\<^sup>2)"

text \<open>
  A batch as the data loader of the notebook yields it: \<open>m\<close> rows of two features and \<open>m\<close>
  labels in a column. A model as the notebook builds it: a weight of shape \<open>(1, 2)\<close> and a
  bias of shape \<open>(1)\<close>, two different parameters.
\<close>

definition batch_ok :: "tensor \<times> tensor \<Rightarrow> bool" where
  "batch_ok B =
     (case B of (X, y) \<Rightarrow>
        length (shape X) = 2 \<and> shape X ! 1 = 2 \<and> shape y = [shape X ! 0, 1] \<and>
        length (elems y) = shape X ! 0)"

definition model_ok :: "LinearRegressionModel \<Rightarrow> bool" where
  "model_ok net =
     (shape (data (weight (layer1 net))) = [1, 2] \<and> length (elems (data (weight (layer1 net)))) = 2 \<and>
      shape (data (bias (layer1 net))) = [1] \<and> length (elems (data (bias (layer1 net)))) = 1 \<and>
      ident (weight (layer1 net)) \<noteq> ident (bias (layer1 net)))"

text \<open>
  The training loop in these terms. The three numbers of a model; the parameters after
  one update \<open>theta - 0.03 * dl/dtheta\<close> on a mini-batch, with the gradient of the sum of
  squared errors written out; and the sum of squared errors on the full \<open>features\<close> and
  \<open>labels\<close>. A complete pass over the mini-batches \<open>Bs\<close> is the left fold
  \<open>foldl sgd_params theta Bs\<close> of the update over all of \<open>Bs\<close>.
\<close>

definition params :: "LinearRegressionModel \<Rightarrow> real \<times> real \<times> real" where
  "params net =
     (elems (data (weight (layer1 net))) ! 0, elems (data (weight (layer1 net))) ! 1,
      elems (data (bias (layer1 net))) ! 0)"

definition sgd_params :: "real \<times> real \<times> real \<Rightarrow> tensor \<times> tensor \<Rightarrow> real \<times> real \<times> real" where
  "sgd_params theta B =
     (case theta of (w0, w1, b) \<Rightarrow>
      case B of (X, y) \<Rightarrow>
        (w0 - 3 / 100 * (\<Sum>i\<leftarrow>[0..<shape X ! 0]. 2 * residual (elems X) (elems y) w0 w1 b i * elems X ! (i * 2)),
         w1 - 3 / 100 * (\<Sum>i\<leftarrow>[0..<shape X ! 0]. 2 * residual (elems X) (elems y) w0 w1 b i * elems X ! (i * 2 + 1)),
         b - 3 / 100 * (\<Sum>i\<leftarrow>[0..<shape X ! 0]. 2 * residual (elems X) (elems y) w0 w1 b i)))"

definition loss_on :: "tensor globals \<Rightarrow> real \<times> real \<times> real \<Rightarrow> real" where
  "loss_on g theta =
     (case theta of (w0, w1, b) \<Rightarrow>
        sse (shape (features g) ! 0) (elems (features g)) (elems (labels g)) w0 w1 b)"

text \<open>Inputs for the examples.\<close>

definition count_from_1 :: "nat \<Rightarrow> real" where
  "count_from_1 i = real i + 1"

definition net_example :: LinearRegressionModel where
  "net_example = LinearRegressionModel_init count_from_1"

definition X_example :: tensor where
  "X_example = \<lparr>shape = [2, 2], elems = [1, 2, 3, 4]\<rparr>"

definition y_example :: tensor where
  "y_example = \<lparr>shape = [2, 1], elems = [0, 1]\<rparr>"

text \<open>
  A data set of three examples, and an iterator that yields it in two mini-batches, in
  an order that changes from pass to pass.
\<close>

definition X2_example :: tensor where
  "X2_example = \<lparr>shape = [1, 2], elems = [0, 1]\<rparr>"

definition y2_example :: tensor where
  "y2_example = \<lparr>shape = [1, 1], elems = [2]\<rparr>"

definition data_iter_example :: "nat \<Rightarrow> (tensor \<times> tensor) list" where
  "data_iter_example k =
     (if even k then [(X_example, y_example), (X2_example, y2_example)]
      else [(X2_example, y2_example), (X_example, y_example)])"

definition globals_example :: "tensor globals" where
  "globals_example =
     \<lparr>features = \<lparr>shape = [3, 2], elems = [1, 2, 3, 4, 0, 1]\<rparr>,
      labels = \<lparr>shape = [3, 1], elems = [0, 1, 2]\<rparr>\<rparr>"

definition image_example :: variable where
  "image_example = plain \<lparr>shape = [1, 28, 28], elems = replicate 784 0\<rparr>"

section \<open>Properties of \<open>f\<close>\<close>

subsection \<open>The loop\<close>

lemma norm_t_mul_scalar: "0 \<le> c \<Longrightarrow> norm_t (mul_scalar t c) = norm_t t * c"
proof -
  assume c: "0 \<le> c"
  have "(\<Sum>x\<leftarrow>map (\<lambda>x. x * c) (elems t). x\<^sup>2) = (\<Sum>x\<leftarrow>elems t. x\<^sup>2) * c\<^sup>2"
    by (induction "elems t" arbitrary: t) (simp_all add: o_def power_mult_distrib sum_list_mult_const)
  then show ?thesis using c
    by (simp add: norm_t_def mul_scalar_def real_sqrt_mult)
qed


lemma mul_scalar_one: "mul_scalar b 1 = b"
  by (simp add: mul_scalar_def)

lemma mul_scalar_twice: "mul_scalar (mul_scalar b c) d = mul_scalar b (c * d)"
  by (simp add: mul_scalar_def o_def mult.assoc)

lemma f_loop_exits:
  "1000 \<le> norm_t b * 2 ^ k \<Longrightarrow> (\<forall>j<k. norm_t b * 2 ^ j < 1000) \<Longrightarrow>
   f_loop b = Some (mul_scalar b (2 ^ k))"
proof (induction k arbitrary: b)
  case 0
  then show ?case by (subst f_loop.simps) (simp add: mul_scalar_one)
next
  case (Suc k)
  from Suc.prems(2) have small: "norm_t b < 1000" by force
  have n2: "norm_t (mul_scalar b 2) = norm_t b * 2"
    by (simp add: norm_t_mul_scalar)
  have a: "1000 \<le> norm_t (mul_scalar b 2) * 2 ^ k"
    using Suc.prems(1) by (simp add: n2 mult.assoc)
  have b: "\<forall>j<k. norm_t (mul_scalar b 2) * 2 ^ j < 1000"
  proof (intro allI impI)
    fix j assume "j < k"
    then have "norm_t b * 2 ^ Suc j < 1000" using Suc.prems(2) by (meson Suc_less_eq)
    then show "norm_t (mul_scalar b 2) * 2 ^ j < 1000" by (simp add: n2 mult.assoc)
  qed
  have "f_loop b = f_loop (mul_scalar b 2)"
    using small by (subst f_loop.simps) simp
  also have "\<dots> = Some (mul_scalar (mul_scalar b 2) (2 ^ k))"
    by (rule Suc.IH [OF a b])
  finally show ?case by (simp add: mul_scalar_twice)
qed

lemma f_loop_Some_norm:
  assumes "f_loop b = Some y"
  shows "norm_t b \<noteq> 0"
proof -
  have step: "norm_t b \<noteq> 0"
    if IH: "\<And>x y. g x = Some y \<Longrightarrow> norm_t x \<noteq> 0"
      and st: "(if norm_t b < 1000 then g (mul_scalar b 2) else Some b) = Some y"
    for g :: "tensor \<Rightarrow> tensor option" and b y
  proof
    assume z: "norm_t b = 0"
    then have "g (mul_scalar b 2) = Some y" using st by simp
    then have "norm_t (mul_scalar b 2) \<noteq> 0" by (rule IH)
    then show False using z by (simp add: norm_t_mul_scalar)
  qed
  show ?thesis
    by (rule f_loop.raw_induct [where P = "\<lambda>b y. norm_t b \<noteq> 0", OF step assms])
qed

lemma f_loop_diverges: "norm_t b = 0 \<Longrightarrow> f_loop b = None"
  using f_loop_Some_norm by (cases "f_loop b") auto

lemma norm_t_nonneg: "0 \<le> norm_t t"
  by (auto simp: norm_t_def intro!: sum_list_nonneg)

lemma doubling_reaches: "0 < r \<Longrightarrow> \<exists>k. 1000 \<le> r * 2 ^ k" for r :: real
proof -
  assume r: "0 < r"
  obtain n where "1000 / r < 2 ^ n" using real_arch_pow [of 2 "1000 / r"] by auto
  then have "1000 < r * 2 ^ n" using r by (simp add: divide_less_eq mult.commute)
  then show ?thesis by (intro exI [of _ n]) simp
qed

lemma f_loop_least:
  assumes "norm_t b \<noteq> 0"
  shows "f_loop b = Some (mul_scalar b (2 ^ (LEAST k. 1000 \<le> norm_t b * 2 ^ k)))"
proof -
  have pos: "0 < norm_t b" using assms norm_t_nonneg [of b] by simp
  obtain k0 where k0: "1000 \<le> norm_t b * 2 ^ k0" using doubling_reaches [OF pos] by blast
  let ?k = "LEAST k. 1000 \<le> norm_t b * 2 ^ k"
  have a: "1000 \<le> norm_t b * 2 ^ ?k" using k0 by (rule LeastI)
  have b: "\<forall>j<?k. norm_t b * 2 ^ j < 1000"
    using not_less_Least [of _ "\<lambda>k. 1000 \<le> norm_t b * 2 ^ k"] by (auto simp: not_le)
  show ?thesis by (rule f_loop_exits [OF a b])
qed

lemma norm_t_single: "elems a = [x] \<Longrightarrow> norm_t a = \<bar>x\<bar>"
  by (simp add: norm_t_def)

lemma doublings_eqI:
  "1000 \<le> \<bar>2 * x\<bar> * 2 ^ k \<Longrightarrow> (\<forall>j<k. \<bar>2 * x\<bar> * 2 ^ j < 1000) \<Longrightarrow> doublings x = k"
  unfolding doublings_def
  by (rule Least_equality) (auto simp: not_less [symmetric] intro: ccontr)

lemma doubled_funpow: "((\<lambda>b. mul_scalar b 2) ^^ k) b = mul_scalar b (2 ^ k)"
  by (induction k arbitrary: b) (simp_all add: mul_scalar_one mul_scalar_twice funpow_swap1 mult.commute)

lemma f_loop_scalar:
  assumes "elems a = [x]" and "x \<noteq> 0"
  shows "f_loop (mul_scalar a 2) = Some (mul_scalar (mul_scalar a 2) (2 ^ doublings x))"
proof -
  have e: "elems (mul_scalar a 2) = [x * 2]" using assms(1) by (simp add: mul_scalar_def)
  have n: "norm_t (mul_scalar a 2) = \<bar>2 * x\<bar>"
    using norm_t_single [OF e] by (simp add: mult.commute)
  have nz: "norm_t (mul_scalar a 2) \<noteq> 0" using assms(2) n by simp
  show ?thesis using f_loop_least [OF nz] by (simp add: n doublings_def)
qed

lemma f_zero: "elems a = [0] \<Longrightarrow> f a = None"
proof -
  assume "elems a = [0]"
  then have "elems (mul_scalar a 2) = [0]" by (simp add: mul_scalar_def)
  then have "norm_t (mul_scalar a 2) = 0" using norm_t_single by fastforce
  then show ?thesis by (simp add: f_def f_loop_diverges)
qed

subsection \<open>Claims about \<open>f\<close>\<close>

text \<open>
  C1. \<open>f\<close> is a forward, piecewise-linear computation: on a scalar tensor with the
  nonzero element \<open>x\<close> it returns the same tensor with the element \<open>2^(k+1) * x\<close> when
  \<open>x > 0\<close> and \<open>100 * 2^(k+1) * x\<close> when \<open>x < 0\<close>, where \<open>k\<close> is the least number of
  doublings of \<open>2 * x\<close> that reaches absolute value 1000.
\<close>

theorem f_scalar_piecewise_linear:
  assumes "elems a = [x]" and "x \<noteq> 0"
  shows "f a = Some (a\<lparr>elems := [if 0 < x then 2 ^ (doublings x + 1) * x
                                  else 100 * 2 ^ (doublings x + 1) * x]\<rparr>)"
proof -
  let ?c = "mul_scalar (mul_scalar a 2) (2 ^ doublings x)"
  have l: "f_loop (mul_scalar a 2) = Some ?c" by (rule f_loop_scalar [OF assms])
  have ec: "elems ?c = [x * 2 * 2 ^ doublings x]"
    using assms(1) by (simp add: mul_scalar_def)
  have s: "sum_t ?c = x * 2 * 2 ^ doublings x" by (simp add: sum_t_def ec)
  have sg: "(0 < sum_t ?c) = (0 < x)" by (simp add: s zero_less_mult_iff)
  have c1: "?c = a\<lparr>elems := [2 ^ (doublings x + 1) * x]\<rparr>"
    using assms(1) by (simp add: mul_scalar_def mult.commute)
  have c2: "scalar_mul 100 ?c = a\<lparr>elems := [100 * 2 ^ (doublings x + 1) * x]\<rparr>"
    using assms(1) by (simp add: mul_scalar_def scalar_mul_def mult.commute)
  show ?thesis
    unfolding f_def l using sg c1 c2 by simp
qed

lemma doublings_300: "doublings 300 = 1"
  by (rule doublings_eqI) simp_all

lemma doublings_minus_3: "doublings (- 3) = 8"
proof (rule doublings_eqI)
  show "1000 \<le> \<bar>2 * (- 3 :: real)\<bar> * 2 ^ 8" by simp
  show "\<forall>j<8. \<bar>2 * (- 3 :: real)\<bar> * 2 ^ j < 1000"
    by (simp add: less_Suc_eq eval_nat_numeral)
qed

theorem f_scalar_piecewise_linear_witness:
  "f \<lparr>shape = [1], elems = [300]\<rparr> = Some \<lparr>shape = [1], elems = [1200]\<rparr> \<and>
   f \<lparr>shape = [1], elems = [- 3]\<rparr> = Some \<lparr>shape = [1], elems = [- 153600]\<rparr>"
  using f_scalar_piecewise_linear [of "\<lparr>shape = [1], elems = [300]\<rparr>" 300]
    f_scalar_piecewise_linear [of "\<lparr>shape = [1], elems = [- 3]\<rparr>" "- 3"]
  by (simp add: doublings_300 doublings_minus_3)

text \<open>
  C8. On a scalar tensor with element \<open>x\<close>, \<open>f\<close> returns exactly when \<open>x\<close> is not zero:
  for \<open>x \<noteq> 0\<close> the loop exits with \<open>b\<close> doubled \<open>doublings x\<close> times, the least \<open>k\<close> with
  \<open>|2x| * 2^k \<ge> 1000\<close>; for \<open>x = 0\<close> the loop never exits.
\<close>

theorem f_terminates_iff_nonzero:
  assumes "elems a = [x]"
  shows "((\<exists>c. f a = Some c) \<longleftrightarrow> x \<noteq> 0) \<and>
         (x \<noteq> 0 \<longrightarrow>
            f_loop (mul_scalar a 2) =
              Some (((\<lambda>b. mul_scalar b 2) ^^ doublings x) (mul_scalar a 2)) \<and>
            1000 \<le> \<bar>2 * x\<bar> * 2 ^ doublings x \<and>
            (\<forall>j<doublings x. \<bar>2 * x\<bar> * 2 ^ j < 1000)) \<and>
         (x = 0 \<longrightarrow> f a = None)"
proof (cases "x = 0")
  case True
  then show ?thesis using f_zero [of a] assms by simp
next
  case False
  have l: "f_loop (mul_scalar a 2) = Some (mul_scalar (mul_scalar a 2) (2 ^ doublings x))"
    by (rule f_loop_scalar [OF assms False])
  have pos: "0 < \<bar>2 * x\<bar>" using False by simp
  obtain k0 where k0: "1000 \<le> \<bar>2 * x\<bar> * 2 ^ k0" using doubling_reaches [OF pos] by blast
  have a: "1000 \<le> \<bar>2 * x\<bar> * 2 ^ doublings x"
    unfolding doublings_def using k0 by (rule LeastI)
  have b: "\<forall>j<doublings x. \<bar>2 * x\<bar> * 2 ^ j < 1000"
    unfolding doublings_def
    using not_less_Least [of _ "\<lambda>k. 1000 \<le> \<bar>2 * x\<bar> * 2 ^ k"] by (auto simp: not_le)
  show ?thesis using False l a b by (simp add: f_def doubled_funpow)
qed

theorem f_terminates_iff_nonzero_witness:
  "f \<lparr>shape = [1], elems = [0]\<rparr> = None \<and> (\<exists>c. f \<lparr>shape = [1], elems = [300]\<rparr> = Some c)"
  using f_terminates_iff_nonzero [of "\<lparr>shape = [1], elems = [0]\<rparr>" 0]
    f_terminates_iff_nonzero [of "\<lparr>shape = [1], elems = [300]\<rparr>" 300]
  by simp

section \<open>Properties of \<open>synthetic_data\<close>\<close>

lemma concat_singletons: "concat (map (\<lambda>i. [g i]) xs) = map g xs"
  by (induction xs) simp_all

lemma mm_column: "mm n d (Suc 0) xs ws = map (\<lambda>i. \<Sum>j\<leftarrow>[0..<d]. xs ! (i * d + j) * ws ! j) [0..<n]"
  by (simp add: mm_def concat_singletons)

lemma shape_drawn [simp]: "shape (drawn fw m sd sz r) = sz"
  by (simp add: drawn_def)

lemma length_drawn [simp]: "length (elems (drawn fw m sd sz r)) = prod_list sz"
  by (simp add: drawn_def)

lemma dtype_drawn [simp]: "dtype (drawn fw m sd sz r) = default_dtype fw"
  by (simp add: drawn_def)

lemma matmul_vector:
  "shape x = [n, d] \<Longrightarrow> shape w = [d] \<Longrightarrow> dtype w = dtype x \<Longrightarrow>
   matmul x w = Inr \<lparr>shape = [n], elems = mm n d 1 (elems x) (elems w), dtype = dtype x\<rparr>"
  by (simp add: matmul_def)

lemma matmul_matrix:
  "shape x = [n, d] \<Longrightarrow> shape w = [d, q] \<Longrightarrow> dtype w = dtype x \<Longrightarrow>
   matmul x w =
     Inr \<lparr>shape = [n, q], elems = mm n d q (elems x) (take (d * q) (elems w)), dtype = dtype x\<rparr>"
  by (simp add: matmul_def)

text \<open>\<open>X @ w\<close> raises when the element type of \<open>w\<close> is not that of \<open>X\<close>.\<close>

lemma matmul_dtype_mismatch:
  "shape x = [n, d] \<Longrightarrow> dtype w \<noteq> dtype x \<Longrightarrow> matmul x w = Inl RuntimeError"
  by (auto simp: matmul_def Let_def)

lemma length_mm [simp]: "length (mm n d q xs ws) = n * q"
  by (simp add: mm_def length_concat o_def sum_list_triv)

text \<open>The run of \<open>synthetic_data\<close> when \<open>X @ w\<close> succeeds with a result whose first dimension is \<open>n\<close>.\<close>

lemma synthetic_data_run:
  assumes w: "w < length (heap s)"
    and d: "shape (heap s ! w) = d # ds"
    and m: "matmul (drawn fw 0 1 [n, d] (rng s)) (heap s ! w) = Inr xw"
    and sh: "shape xw = n # rest"
    and dt: "dtype xw = default_dtype fw"
  shows "synthetic_data fw w b n s =
     Inr ((length (heap s), length (heap s) + 2),
          snd (tensor_type (length (heap s) + 2)
            (snd (tensor_type (length (heap s))
              \<lparr>heap = heap s @
                 [drawn fw 0 1 [n, d] (rng s), xw,
                  \<lparr>shape = shape xw,
                   elems = map2 (+) (map (\<lambda>v. v + b) (elems xw))
                             (elems (drawn fw 0 0.01 (shape xw) (rng s + n * d))),
                   dtype = default_dtype fw\<rparr>,
                  drawn fw 0 0.01 (shape xw) (rng s + n * d)],
               rng = rng s + n * d + prod_list (shape xw)\<rparr>))))"
  using w d m sh dt
  by (simp add: synthetic_data_def shape_index_def normal_def alloc_def add_scalar_def
      iadd_def nth_append tensor_type_def list_update_append split: prod.splits)


lemma tensor_type_frame:
  "tensor_type a s = (r, s') \<Longrightarrow>
   rng s' = rng s \<and> length (heap s) \<le> length (heap s') \<and>
   (\<forall>c<length (heap s). heap s' ! c = heap s ! c)"
  by (auto simp: tensor_type_def alloc_def nth_append split: if_splits)

lemma synthetic_data_then_type:
  "synthetic_data fw w b n s =
     (case synthetic_data_without_type fw w b n s of
        Inl e \<Rightarrow> Inl e
      | Inr ((X, y), s5) \<Rightarrow>
          (case tensor_type X s5 of (_, s6) \<Rightarrow>
          (case tensor_type y s6 of (_, s7) \<Rightarrow> Inr ((X, y), s7))))"
  by (simp add: synthetic_data_def synthetic_data_without_type_def split: prod.splits sum.splits)

lemma synthetic_data_without_type_addrs:
  assumes "synthetic_data_without_type fw w b n s = Inr ((X, y), s5)"
  shows "X = length (heap s) \<and> y = length (heap s) + 2 \<and> length (heap s5) = length (heap s) + 4"
proof -
  obtain d where d: "shape_index (heap s ! w) 0 = Inr d"
    using assms by (auto simp: synthetic_data_without_type_def split: sum.splits)
  define s1 where "s1 = s\<lparr>rng := rng s + prod_list [n, d], heap := heap s @ [drawn fw 0 1 [n, d] (rng s)]\<rparr>"
  have X1: "normal fw 0 1 [n, d] s = (length (heap s), s1)"
    by (simp add: normal_def alloc_def s1_def)
  obtain xw where xw: "matmul (heap s1 ! length (heap s)) (heap s1 ! w) = Inr xw"
    using assms d X1 by (auto simp: synthetic_data_without_type_def split: sum.splits)
  have l1: "length (heap s1) = length (heap s) + 1" by (simp add: s1_def)
  show ?thesis
    using assms d xw l1
    by (simp add: synthetic_data_without_type_def X1 alloc_def add_scalar_def iadd_def normal_def
        split: sum.splits if_splits) auto
qed

lemma run_without_type_example:
  "synthetic_data_without_type fw_double 0 (42 / 10) 3 store_double_w =
     Inr ((1, 3),
       \<lparr>heap = [\<lparr>shape = [2, 1], elems = [2, - 34 / 10], dtype = Float64\<rparr>,
                \<lparr>shape = [3, 2], elems = [0, 1, 2, 3, 4, 5], dtype = Float64\<rparr>,
                \<lparr>shape = [3, 1], elems = [- 34 / 10, - 62 / 10, - 9], dtype = Float64\<rparr>,
                \<lparr>shape = [3, 1], elems = [86 / 100, - 193 / 100, - 472 / 100], dtype = Float64\<rparr>,
                \<lparr>shape = [3, 1], elems = [6 / 100, 7 / 100, 8 / 100], dtype = Float64\<rparr>],
        rng = 9\<rparr>)"
  by code_simp

text \<open>
  C9. The statements \<open>X.type(torch.FloatTensor)\<close> and \<open>y.type(torch.FloatTensor)\<close> are
  no-ops for the result: \<open>synthetic_data\<close> fails exactly when the function without them
  fails, with the same error, and otherwise returns the same pair \<open>(X, y)\<close>, with \<open>X\<close>,
  \<open>y\<close> and every other tensor object that existed before the two statements unchanged.
\<close>

theorem synthetic_data_type_calls_noop:
  "(case synthetic_data_without_type fw w b n s of
      Inl e \<Rightarrow> synthetic_data fw w b n s = Inl e
    | Inr ((X, y), s5) \<Rightarrow>
        (\<exists>s7. synthetic_data fw w b n s = Inr ((X, y), s7) \<and>
           X < length (heap s5) \<and> y < length (heap s5) \<and>
           heap s7 ! X = heap s5 ! X \<and> heap s7 ! y = heap s5 ! y \<and>
           (\<forall>a<length (heap s5). heap s7 ! a = heap s5 ! a) \<and> rng s7 = rng s5))"
proof (cases "synthetic_data_without_type fw w b n s")
  case (Inl e)
  then show ?thesis by (simp add: synthetic_data_then_type)
next
  case (Inr r)
  obtain X y s5 where r: "r = ((X, y), s5)" by (metis prod.collapse)
  obtain r6 s6 where t6: "tensor_type X s5 = (r6, s6)" by (metis prod.collapse)
  obtain r7 s7 where t7: "tensor_type y s6 = (r7, s7)" by (metis prod.collapse)
  have sd: "synthetic_data fw w b n s = Inr ((X, y), s7)"
    using Inr r t6 t7 by (simp add: synthetic_data_then_type)
  have ad: "X < length (heap s5)" "y < length (heap s5)"
    using synthetic_data_without_type_addrs [of fw w b n s X y s5] Inr r by simp_all
  have f6: "rng s6 = rng s5" "length (heap s5) \<le> length (heap s6)"
    "\<forall>c<length (heap s5). heap s6 ! c = heap s5 ! c"
    using tensor_type_frame [OF t6] by simp_all
  have f7: "rng s7 = rng s6" "\<forall>c<length (heap s6). heap s7 ! c = heap s6 ! c"
    using tensor_type_frame [OF t7] by simp_all
  have fr: "\<forall>a<length (heap s5). heap s7 ! a = heap s5 ! a"
    using f6 f7 by auto
  show ?thesis using Inr r sd ad fr f6 f7 by simp
qed

theorem synthetic_data_type_calls_noop_witness:
  "\<exists>s7. synthetic_data fw_double 0 (42 / 10) 3 store_double_w = Inr ((1, 3), s7) \<and>
     heap s7 ! 1 = \<lparr>shape = [3, 2], elems = [0, 1, 2, 3, 4, 5], dtype = Float64\<rparr> \<and>
     heap s7 ! 3 =
       \<lparr>shape = [3, 1], elems = [86 / 100, - 193 / 100, - 472 / 100], dtype = Float64\<rparr> \<and>
     rng s7 = 9"
proof -
  have "\<exists>s7. synthetic_data fw_double 0 (42 / 10) 3 store_double_w = Inr ((1, 3), s7) \<and>
     heap s7 ! 1 = \<lparr>shape = [3, 2], elems = [0, 1, 2, 3, 4, 5], dtype = Float64\<rparr> \<and>
     heap s7 ! 3 =
       \<lparr>shape = [3, 1], elems = [86 / 100, - 193 / 100, - 472 / 100], dtype = Float64\<rparr> \<and>
     rng s7 = 9"
    using synthetic_data_type_calls_noop [of fw_double 0 "42 / 10" 3 store_double_w]
    unfolding run_without_type_example sum.case prod.case by simp blast
  then show ?thesis .
qed


lemma synthetic_data_ok:
  assumes w: "w < length (heap s)"
    and d: "shape (heap s ! w) = d # ds"
    and m: "matmul (drawn fw 0 1 [n, d] (rng s)) (heap s ! w) = Inr xw"
    and sh: "shape xw = n # rest"
    and dt: "dtype xw = default_dtype fw"
  shows "\<exists>s'. synthetic_data fw w b n s = Inr ((length (heap s), length (heap s) + 2), s') \<and>
           length (heap s) + 2 < length (heap s') \<and>
           heap s' ! length (heap s) = drawn fw 0 1 [n, d] (rng s) \<and>
           heap s' ! (length (heap s) + 2) =
             \<lparr>shape = shape xw,
              elems = map2 (+) (map (\<lambda>v. v + b) (elems xw))
                        (elems (drawn fw 0 0.01 (shape xw) (rng s + n * d))),
              dtype = default_dtype fw\<rparr> \<and>
           (\<forall>a<length (heap s). heap s' ! a = heap s ! a)"
proof -
  define s5 where "s5 =
     \<lparr>heap = heap s @
         [drawn fw 0 1 [n, d] (rng s), xw,
          \<lparr>shape = shape xw,
           elems = map2 (+) (map (\<lambda>v. v + b) (elems xw))
                     (elems (drawn fw 0 0.01 (shape xw) (rng s + n * d))),
           dtype = default_dtype fw\<rparr>,
          drawn fw 0 0.01 (shape xw) (rng s + n * d)],
       rng = rng s + n * d + prod_list (shape xw)\<rparr>"
  obtain r6 s6 where t6: "tensor_type (length (heap s)) s5 = (r6, s6)" by (metis prod.collapse)
  obtain r7 s7 where t7: "tensor_type (length (heap s) + 2) s6 = (r7, s7)" by (metis prod.collapse)
  have run: "synthetic_data fw w b n s = Inr ((length (heap s), length (heap s) + 2), s7)"
    using synthetic_data_run [OF w d m sh dt, of b] t6 t7 by (simp add: s5_def)
  have f6: "length (heap s5) \<le> length (heap s6)" "\<forall>c<length (heap s5). heap s6 ! c = heap s5 ! c"
    using tensor_type_frame [OF t6] by simp_all
  have f7: "length (heap s6) \<le> length (heap s7)" "\<forall>c<length (heap s6). heap s7 ! c = heap s6 ! c"
    using tensor_type_frame [OF t7] by simp_all
  have l5: "length (heap s5) = length (heap s) + 4" by (simp add: s5_def)
  have fr: "\<forall>c<length (heap s5). heap s7 ! c = heap s5 ! c" using f6 f7 by auto
  have a: "heap s7 ! length (heap s) = drawn fw 0 1 [n, d] (rng s)"
    using fr l5 by (simp add: s5_def)
  have b: "heap s7 ! (length (heap s) + 2) =
             \<lparr>shape = shape xw,
              elems = map2 (+) (map (\<lambda>v. v + b) (elems xw))
                        (elems (drawn fw 0 0.01 (shape xw) (rng s + n * d))),
              dtype = default_dtype fw\<rparr>"
    using fr l5 by (simp add: s5_def nth_append)
  have c: "\<forall>a<length (heap s). heap s7 ! a = heap s5 ! a" using fr l5 by simp
  have c': "\<forall>a<length (heap s). heap s7 ! a = heap s ! a"
    using c by (simp add: s5_def nth_append)
  have "length (heap s) + 2 < length (heap s7)" using f6 f7 l5 by linarith
  then show ?thesis using run a b c' by blast
qed

text \<open>
  C2, as stated, fails. With a weight of shape \<open>(2, 2, 1)\<close> and three examples, \<open>X\<close> has
  shape \<open>(3, 2)\<close>, \<open>X @ w\<close> is a batch of shape \<open>(2, 3, 1)\<close>, and the assertion
  \<open>X.shape[0] == y.shape[0]\<close> compares 3 with 2. With a vector of two integers
  (\<open>torch.int64\<close>), \<open>X\<close> is of the default type \<open>torch.float32\<close> and \<open>X @ w\<close> raises.
\<close>

theorem synthetic_data_assertion_counterexample:
  "synthetic_data fw_example 0 (42 / 10) 3 store_batch_w = Inl AssertionError \<and>
   synthetic_data fw_example 0 (42 / 10) 3 store_int_w = Inl RuntimeError"
  by code_simp

text \<open>A weight of no dimensions has no \<open>shape[0]\<close>.\<close>

lemma synthetic_data_scalar_weight:
  "synthetic_data fw_example 0 (42 / 10) 3 store_scalar_w = Inl IndexError"
  by code_simp

text \<open>
  C2, amended. For a weight tensor of one or two dimensions (a vector of shape \<open>(d)\<close> or
  a matrix of shape \<open>(d, q)\<close>) whose element type is the default floating type, which is
  the type of the generated \<open>X\<close>, any scalar bias and any positive number of examples, \<open>X\<close> has
  shape \<open>(num_examples, w.shape[0])\<close>, \<open>y\<close> has \<open>num_examples\<close> rows, the assertion
  holds and \<open>synthetic_data\<close> returns.
\<close>

theorem synthetic_data_assertion_holds:
  assumes "w < length (heap s)"
    and "length (shape (heap s ! w)) = 1 \<or> length (shape (heap s ! w)) = 2"
    and "is_floating (default_dtype fw)"
    and "dtype (heap s ! w) = default_dtype fw"
    and "0 < n"
  shows "\<exists>X y s'. synthetic_data fw w b n s = Inr ((X, y), s') \<and>
           shape (heap s' ! X) = [n, shape (heap s ! w) ! 0] \<and>
           shape (heap s' ! y) = n # tl (shape (heap s ! w)) \<and>
           shape_index (heap s' ! X) 0 = Inr n \<and>
           shape_index (heap s' ! y) 0 = Inr n"
proof -
  let ?X = "drawn fw 0 1 [n, hd (shape (heap s ! w))] (rng s)"
  obtain d ds where d: "shape (heap s ! w) = d # ds" and ds: "ds = [] \<or> (\<exists>q. ds = [q])"
    using assms(2) by (cases "shape (heap s ! w)") (auto simp: length_Suc_conv)
  have dw: "dtype (heap s ! w) = dtype (drawn fw 0 1 [n, d] (rng s))"
    using assms(4) by simp
  obtain xw where m: "matmul (drawn fw 0 1 [n, d] (rng s)) (heap s ! w) = Inr xw"
    and sh: "shape xw = n # ds" and dt: "dtype xw = default_dtype fw"
    using d ds dw matmul_vector [of "drawn fw 0 1 [n, d] (rng s)" n d "heap s ! w"]
      matmul_matrix [of "drawn fw 0 1 [n, d] (rng s)" n d "heap s ! w"]
    by auto
  define X where "X = length (heap s)"
  define y where "y = length (heap s) + 2"
  obtain s' where run: "synthetic_data fw w b n s = Inr ((X, y), s')"
    and hx: "heap s' ! X = drawn fw 0 1 [n, d] (rng s)"
    and hy: "shape (heap s' ! y) = shape xw"
    using synthetic_data_ok [OF assms(1) d m sh dt, of b] unfolding X_def y_def by force
  have "shape (heap s' ! X) = [n, shape (heap s ! w) ! 0]" by (simp add: hx d)
  moreover have "shape (heap s' ! y) = n # tl (shape (heap s ! w))" by (simp add: hy sh d)
  ultimately show ?thesis using run by (auto simp: shape_index_def)
qed

theorem synthetic_data_assertion_holds_witness:
  "\<exists>X y s'. synthetic_data fw_example 0 (42 / 10) 3 store_vector_w = Inr ((X, y), s') \<and>
     shape (heap s' ! X) = [3, 2] \<and> shape (heap s' ! y) = [3]"
proof -
  have h1: "0 < length (heap store_vector_w)" by (simp add: store_vector_w_def)
  have h2: "length (shape (heap store_vector_w ! 0)) = 1 \<or> length (shape (heap store_vector_w ! 0)) = 2"
    by (simp add: store_vector_w_def)
  have h3: "dtype (heap store_vector_w ! 0) = default_dtype fw_example"
    by (simp add: store_vector_w_def fw_example_def)
  have h4: "(0::nat) < 3" by simp
  have h5: "is_floating (default_dtype fw_example)" by (simp add: fw_example_def is_floating_def)
  have sw: "shape (heap store_vector_w ! 0) = [2]" by (simp add: store_vector_w_def)
  obtain X y s' where "synthetic_data fw_example 0 (42 / 10) 3 store_vector_w = Inr ((X, y), s')"
    and "shape (heap s' ! X) = [3, shape (heap store_vector_w ! 0) ! 0]"
    and "shape (heap s' ! y) = 3 # tl (shape (heap store_vector_w ! 0))"
    using synthetic_data_assertion_holds [OF h1 h2 h5 h3 h4, of "42 / 10"] by blast
  then show ?thesis unfolding sw by auto
qed

text \<open>
  C7, as stated, fails: \<open>X\<close> is drawn in the default element type, and for a weight of
  shape \<open>(2, 1)\<close> in \<open>torch.float64\<close> under the default \<open>torch.float32\<close>, \<open>X @ w\<close> raises
  and nothing is returned.
\<close>

theorem synthetic_data_returns_counterexample:
  "synthetic_data fw_example 0 (42 / 10) 3 store_double_w = Inl RuntimeError"
  by code_simp

text \<open>
  C7, amended. For a weight tensor of shape \<open>(d, 1)\<close> whose element type is the default
  floating type, which is the type of the generated \<open>X\<close>, a number \<open>b\<close> and a positive \<open>n\<close>,
  \<open>synthetic_data\<close> returns a pair \<open>(X, y)\<close> of two tensor objects: \<open>X\<close> is the tensor
  drawn by the first \<open>torch.normal\<close>, unchanged, of shape \<open>(n, d)\<close>; \<open>y\<close> has shape
  \<open>(n, 1)\<close> and \<open>y[i] = sum_j X[i, j] * w[j] + b + eps[i]\<close>, where \<open>eps\<close> is the tensor
  of shape \<open>(n, 1)\<close> drawn by the second \<open>torch.normal\<close>. The tensors that existed before
  the call, \<open>w\<close> among them, are unchanged.
\<close>

theorem synthetic_data_returns_X_y:
  assumes "w < length (heap s)" and "shape (heap s ! w) = [d, 1]"
    and "is_floating (default_dtype fw)"
    and "dtype (heap s ! w) = default_dtype fw" and "0 < n"
  shows "\<exists>X y s'. synthetic_data fw w b n s = Inr ((X, y), s') \<and>
           X \<noteq> y \<and>
           heap s' ! X = drawn fw 0 1 [n, d] (rng s) \<and>
           shape (heap s' ! X) = [n, d] \<and>
           shape (heap s' ! y) = [n, 1] \<and>
           dtype (heap s' ! y) = default_dtype fw \<and>
           length (elems (heap s' ! y)) = n \<and>
           (\<forall>i<n. elems (heap s' ! y) ! i =
                    (\<Sum>j\<leftarrow>[0..<d]. elems (heap s' ! X) ! (i * d + j) * elems (heap s ! w) ! j)
                    + b + elems (drawn fw 0 0.01 [n, 1] (rng s + n * d)) ! i) \<and>
           (\<forall>a<length (heap s). heap s' ! a = heap s ! a)"
proof -
  let ?X = "drawn fw 0 1 [n, d] (rng s)"
  let ?eps = "drawn fw 0 0.01 [n, 1] (rng s + n * d)"
  define xw where "xw = \<lparr>shape = [n, 1], elems = mm n d 1 (elems ?X) (take (d * 1) (elems (heap s ! w))),
                          dtype = dtype ?X\<rparr>"
  have dw: "dtype (heap s ! w) = dtype ?X" using assms(4) by simp
  have m: "matmul ?X (heap s ! w) = Inr xw"
    unfolding xw_def by (rule matmul_matrix) (simp_all add: assms(2) dw)
  have sh: "shape xw = n # [1]" by (simp add: xw_def)
  have dt: "dtype xw = default_dtype fw" by (simp add: xw_def)
  define X where "X = length (heap s)"
  define y where "y = length (heap s) + 2"
  obtain s' where run: "synthetic_data fw w b n s = Inr ((X, y), s')"
    and hx: "heap s' ! X = ?X"
    and hy: "heap s' ! y =
             \<lparr>shape = shape xw,
              elems = map2 (+) (map (\<lambda>v. v + b) (elems xw))
                        (elems (drawn fw 0 0.01 (shape xw) (rng s + n * d))),
              dtype = default_dtype fw\<rparr>"
    and fr: "\<forall>a<length (heap s). heap s' ! a = heap s ! a"
    using synthetic_data_ok [OF assms(1) assms(2) m sh dt, of b] unfolding X_def y_def by blast
  have ey: "elems (heap s' ! y) = map2 (+) (map (\<lambda>v. v + b) (elems xw)) (elems ?eps)"
    by (simp add: hy sh)
  have exw: "elems xw = map (\<lambda>i. \<Sum>j\<leftarrow>[0..<d]. elems ?X ! (i * d + j) * take d (elems (heap s ! w)) ! j) [0..<n]"
    by (simp add: xw_def mm_column)
  have len: "length (elems (heap s' ! y)) = n" by (simp add: ey exw)
  have el: "elems (heap s' ! y) ! i =
        (\<Sum>j\<leftarrow>[0..<d]. elems (heap s' ! X) ! (i * d + j) * elems (heap s ! w) ! j)
          + b + elems ?eps ! i" if "i < n" for i
  proof -
    have "(\<Sum>j\<leftarrow>[0..<d]. elems ?X ! (i * d + j) * take d (elems (heap s ! w)) ! j) =
          (\<Sum>j\<leftarrow>[0..<d]. elems ?X ! (i * d + j) * elems (heap s ! w) ! j)"
      by (rule arg_cong [where f = sum_list]) (simp cong: map_cong)
    then show ?thesis using that by (simp add: ey exw hx)
  qed
  have ne: "X \<noteq> y" by (simp add: X_def y_def)
  have shy: "shape (heap s' ! y) = [n, 1]" by (simp add: hy sh)
  have dty: "dtype (heap s' ! y) = default_dtype fw" by (simp add: hy)
  have shx: "shape (heap s' ! X) = [n, d]" by (simp add: hx)
  show ?thesis
    using run ne hx shx shy dty len el fr by blast
qed

theorem synthetic_data_returns_X_y_witness:
  "\<exists>X y s'. synthetic_data fw_example 0 (42 / 10) 3 store_true_w = Inr ((X, y), s') \<and>
     X \<noteq> y \<and> shape (heap s' ! X) = [3, 2] \<and> shape (heap s' ! y) = [3, 1] \<and>
     length (elems (heap s' ! y)) = 3"
proof -
  have h1: "0 < length (heap store_true_w)" by (simp add: store_true_w_def)
  have h2: "shape (heap store_true_w ! 0) = [2, 1]" by (simp add: store_true_w_def)
  have h3: "dtype (heap store_true_w ! 0) = default_dtype fw_example"
    by (simp add: store_true_w_def fw_example_def)
  have h4: "(0::nat) < 3" by simp
  have h5: "is_floating (default_dtype fw_example)" by (simp add: fw_example_def is_floating_def)
  from synthetic_data_returns_X_y [OF h1 h2 h5 h3 h4, of "42 / 10"]
  show ?thesis by blast
qed

section \<open>Properties of the models and of training\<close>


lemma sum_case_id: "(case m of Inl e \<Rightarrow> Inl e | Inr y \<Rightarrow> Inr y) = m"
  by (cases m) simp_all

lemma length_concat_grid: "length (concat (map (\<lambda>i. map (h i) [0..<q]) [0..<n])) = n * q"
  by (induction n) simp_all

lemma nth_concat_grid:
  "i < n \<Longrightarrow> c < q \<Longrightarrow> concat (map (\<lambda>i. map (h i) [0..<q]) [0..<n]) ! (i * q + c) = h i c"
proof (induction n)
  case 0
  then show ?case by simp
next
  case (Suc n)
  show ?case
  proof (cases "i < n")
    case True
    have "i * q + c < n * q"
    proof -
      have "i * q + c < i * q + q" using Suc.prems(2) by simp
      also have "\<dots> = Suc i * q" by simp
      also have "\<dots> \<le> n * q" using True by (intro mult_le_mono1) simp
      finally show ?thesis .
    qed
    then show ?thesis using Suc True by (simp add: nth_append length_concat_grid)
  next
    case False
    then have "i = n" using Suc.prems(1) by simp
    then show ?thesis using Suc.prems(2) by (simp add: nth_append length_concat_grid)
  qed
qed

lemma nth_transpose2:
  "i < r \<Longrightarrow> j < c \<Longrightarrow> transpose2 r c xs ! (j * r + i) = xs ! (i * c + j)"
  unfolding transpose2_def by (rule nth_concat_grid)

lemma sum_list_cong_upt:
  "(\<And>i. i < n \<Longrightarrow> h i = k i) \<Longrightarrow> (\<Sum>i\<leftarrow>[0..<n]. h i) = (\<Sum>i\<leftarrow>[0..<n]. (k i :: real))"
  by (rule arg_cong [where f = sum_list]) (simp cong: map_cong)

lemma Linear_forward_affine:
  assumes W: "shape (data (weight l)) = [out, d]"
    and b: "shape (data (bias l)) = [out]"
    and x: "shape (val x) = [n, d]"
  shows "\<exists>v. Linear_forward l x = Inr v \<and> shape (val v) = [n, out] \<and>
           length (elems (val v)) = n * out \<and>
           (\<forall>r<n. \<forall>c<out. elems (val v) ! (r * out + c) =
               (\<Sum>j\<leftarrow>[0..<d]. elems (val x) ! (r * d + j) * elems (data (weight l)) ! (c * d + j))
               + elems (data (bias l)) ! c)"
proof -
  let ?wt = "transposed (data (weight l))"
  let ?el = "addmm n d out (elems (data (bias l))) (elems (val x)) (elems ?wt)"
  let ?v = "\<lparr>val = \<lparr>shape = [n, out], elems = ?el\<rparr>,
             history = AddmmBackward (Leaf (ident (bias l))) (history x) (val x)
                         (TBackward (Leaf (ident (weight l)))) ?wt\<rparr>"
  have run: "Linear_forward l x = Inr ?v"
    using W b x by (simp add: Linear_forward_def Let_def)
  have len: "length ?el = n * out" unfolding addmm_def by (rule length_concat_grid)
  have el: "?el ! (r * out + c) =
      (\<Sum>j\<leftarrow>[0..<d]. elems (val x) ! (r * d + j) * elems (data (weight l)) ! (c * d + j))
      + elems (data (bias l)) ! c" if r: "r < n" and c: "c < out" for r c
  proof -
    have "?el ! (r * out + c) = elems (data (bias l)) ! c +
        (\<Sum>j\<leftarrow>[0..<d]. elems (val x) ! (r * d + j) * elems ?wt ! (j * out + c))"
      unfolding addmm_def by (rule nth_concat_grid [OF r c])
    also have "(\<Sum>j\<leftarrow>[0..<d]. elems (val x) ! (r * d + j) * elems ?wt ! (j * out + c)) =
        (\<Sum>j\<leftarrow>[0..<d]. elems (val x) ! (r * d + j) * elems (data (weight l)) ! (c * d + j))"
      using c W by (intro sum_list_cong_upt) (simp add: transposed_def nth_transpose2)
    finally show ?thesis by simp
  qed
  show ?thesis using run len el by (intro exI [of _ ?v]) simp
qed


lemma DERIV_sum_squares:
  "DERIV (\<lambda>v. \<Sum>i\<leftarrow>[0..<m]. (a i * v + c i)\<^sup>2) w :> (\<Sum>i\<leftarrow>[0..<m]. 2 * (a i * w + c i) * a i)"
  by (induction m) (auto intro!: derivative_eq_intros)

lemma sse_deriv_w0:
  "DERIV (\<lambda>v. sse m xs ys v w1 b) w0 :> (\<Sum>i\<leftarrow>[0..<m]. 2 * residual xs ys w0 w1 b i * xs ! (i * 2))"
  using DERIV_sum_squares [where m = m and a = "\<lambda>i. xs ! (i * 2)" and c = "\<lambda>i. xs ! (i * 2 + 1) * w1 + b - ys ! i" and w = w0]
  by (simp add: sse_def residual_def prediction_def algebra_simps)

lemma sse_deriv_w1:
  "DERIV (\<lambda>v. sse m xs ys w0 v b) w1 :> (\<Sum>i\<leftarrow>[0..<m]. 2 * residual xs ys w0 w1 b i * xs ! (i * 2 + 1))"
  using DERIV_sum_squares [where m = m and a = "\<lambda>i. xs ! (i * 2 + 1)" and c = "\<lambda>i. xs ! (i * 2) * w0 + b - ys ! i" and w = w1]
  by (simp add: sse_def residual_def prediction_def algebra_simps)

lemma sse_deriv_b:
  "DERIV (\<lambda>v. sse m xs ys w0 w1 v) b :> (\<Sum>i\<leftarrow>[0..<m]. 2 * residual xs ys w0 w1 b i)"
  using DERIV_sum_squares [where m = m and a = "\<lambda>i. 1" and c = "\<lambda>i. xs ! (i * 2) * w0 + xs ! (i * 2 + 1) * w1 - ys ! i" and w = b]
  by (simp add: sse_def residual_def prediction_def algebra_simps)




lemma upt_2: "[0..<2] = [0, Suc 0]"
  by (simp add: upt_rec)

lemma zip_map_upt:
  "length ys = m \<Longrightarrow> zip (map p [0..<m]) ys = map (\<lambda>i. (p i, ys ! i)) [0..<m]"
  by (rule nth_equalityI) simp_all


lemma transposed_row: "transposed \<lparr>shape = [Suc 0, 2], elems = [w0, w1]\<rparr> = \<lparr>shape = [2, Suc 0], elems = [w0, w1]\<rparr>"
  by (simp add: transposed_def transpose2_def upt_2)

lemma transposed_column: "transposed \<lparr>shape = [2, Suc 0], elems = [a, b]\<rparr> = \<lparr>shape = [Suc 0, 2], elems = [a, b]\<rparr>"
  by (simp add: transposed_def transpose2_def upt_2)

lemma addmm_row:
  "addmm m 2 (Suc 0) [b] xs [w0, w1] = map (prediction xs w0 w1 b) [0..<m]"
  by (simp add: addmm_def concat_singletons upt_2 prediction_def add.commute)

lemma forward_batch:
  assumes "layer1 net = \<lparr>weight = \<lparr>ident = wi, data = \<lparr>shape = [1, 2], elems = [w0, w1]\<rparr>, grad = gw\<rparr>,
                          bias = \<lparr>ident = bi, data = \<lparr>shape = [1], elems = [b]\<rparr>, grad = gb\<rparr>\<rparr>"
    and "shape X = [m, 2]"
  shows "forward net (plain X) =
     Inr \<lparr>val = \<lparr>shape = [m, 1], elems = map (prediction (elems X) w0 w1 b) [0..<m]\<rparr>,
          history = AddmmBackward (Leaf bi) NoGrad X (TBackward (Leaf wi))
                      \<lparr>shape = [2, 1], elems = [w0, w1]\<rparr>\<rparr>"
  using assms
  by (simp add: forward_def Linear_forward_def plain_def transposed_row addmm_row Let_def)

lemma MSELoss_sum_batch:
  assumes "shape y = [m, Suc 0]" and "length (elems y) = m"
  shows "MSELoss_sum \<lparr>val = \<lparr>shape = [m, Suc 0], elems = map p [0..<m]\<rparr>, history = h\<rparr> y =
     Inr \<lparr>val = \<lparr>shape = [], elems = [\<Sum>i\<leftarrow>[0..<m]. (p i - elems y ! i)\<^sup>2]\<rparr>,
          history = record1 h (MseLossBackward h \<lparr>shape = [m, Suc 0], elems = map p [0..<m]\<rparr> y)\<rparr>"
  using assms by (simp add: MSELoss_sum_def zip_map_upt o_def)

lemma sub_scaled:
  assumes "length (elems y) = m"
  shows "scalar_mul 1 (scalar_mul 2 (sub_t \<lparr>shape = [m, Suc 0], elems = map p [0..<m]\<rparr> y)) =
         \<lparr>shape = [m, Suc 0], elems = map (\<lambda>i. 2 * (p i - elems y ! i)) [0..<m]\<rparr>"
  using assms by (simp add: scalar_mul_def sub_t_def zip_map_upt o_def)

lemma column_sums_column:
  "column_sums m (Suc 0) (map h [0..<m]) = [\<Sum>i\<leftarrow>[0..<m]. h i]"
proof -
  have "(\<Sum>i\<leftarrow>[0..<m]. map h [0..<m] ! i) = (\<Sum>i\<leftarrow>[0..<m]. h i)"
    by (intro sum_list_cong_upt) simp
  then show ?thesis by (simp add: column_sums_def)
qed

lemma product_transposed_batch:
  assumes "shape X = [m, 2]"
  shows "product (transposed X) \<lparr>shape = [m, Suc 0], elems = map h [0..<m]\<rparr> =
     \<lparr>shape = [2, Suc 0],
      elems = [\<Sum>i\<leftarrow>[0..<m]. elems X ! (i * 2) * h i, \<Sum>i\<leftarrow>[0..<m]. elems X ! (i * 2 + 1) * h i]\<rparr>"
proof -
  have a: "(\<Sum>i\<leftarrow>[0..<m]. transpose2 m 2 (elems X) ! i * map h [0..<m] ! i) =
           (\<Sum>i\<leftarrow>[0..<m]. elems X ! (i * 2) * h i)"
    using nth_transpose2 [of _ m 0 2 "elems X"] by (intro sum_list_cong_upt) simp
  have b: "(\<Sum>i\<leftarrow>[0..<m]. transpose2 m 2 (elems X) ! (m + i) * map h [0..<m] ! i) =
           (\<Sum>i\<leftarrow>[0..<m]. elems X ! (i * 2 + 1) * h i)"
    using nth_transpose2 [of _ m 1 2 "elems X"] by (intro sum_list_cong_upt) simp
  show ?thesis
    using assms a b by (simp add: product_def transposed_def mm_def upt_2)
qed


lemma grads_of_zero_grad: "grads_of (zero_grad net) = (\<lambda>i. None)"
  by (rule ext) (simp add: grads_of_def zero_grad_def)

lemma train_step_closed:
  assumes net: "net = \<lparr>layer1 =
        \<lparr>weight = \<lparr>ident = wi, data = \<lparr>shape = [1, 2], elems = [w0, w1]\<rparr>, grad = gw\<rparr>,
         bias = \<lparr>ident = bi, data = \<lparr>shape = [1], elems = [b]\<rparr>, grad = gb\<rparr>\<rparr>\<rparr>"
    and ids: "wi \<noteq> bi"
    and X: "shape X = [m, 2]"
    and y: "shape y = [m, 1]" "length (elems y) = m"
  shows "train_step net X y =
     Inr (\<lparr>layer1 =
            \<lparr>weight = \<lparr>ident = wi,
                       data = \<lparr>shape = [1, 2],
                               elems = [w0 - lr * (\<Sum>i\<leftarrow>[0..<m]. 2 * residual (elems X) (elems y) w0 w1 b i * elems X ! (i * 2)),
                                        w1 - lr * (\<Sum>i\<leftarrow>[0..<m]. 2 * residual (elems X) (elems y) w0 w1 b i * elems X ! (i * 2 + 1))]\<rparr>,
                       grad = Some \<lparr>shape = [1, 2],
                               elems = [\<Sum>i\<leftarrow>[0..<m]. 2 * residual (elems X) (elems y) w0 w1 b i * elems X ! (i * 2),
                                        \<Sum>i\<leftarrow>[0..<m]. 2 * residual (elems X) (elems y) w0 w1 b i * elems X ! (i * 2 + 1)]\<rparr>\<rparr>,
             bias = \<lparr>ident = bi,
                     data = \<lparr>shape = [1], elems = [b - lr * (\<Sum>i\<leftarrow>[0..<m]. 2 * residual (elems X) (elems y) w0 w1 b i)]\<rparr>,
                     grad = Some \<lparr>shape = [1], elems = [\<Sum>i\<leftarrow>[0..<m]. 2 * residual (elems X) (elems y) w0 w1 b i]\<rparr>\<rparr>\<rparr>\<rparr>,
          \<lparr>val = \<lparr>shape = [], elems = [sse m (elems X) (elems y) w0 w1 b]\<rparr>,
           history = MseLossBackward
                       (AddmmBackward (Leaf bi) NoGrad X (TBackward (Leaf wi)) \<lparr>shape = [2, 1], elems = [w0, w1]\<rparr>)
                       \<lparr>shape = [m, 1], elems = map (prediction (elems X) w0 w1 b) [0..<m]\<rparr> y\<rparr>)"
proof -
  let ?p = "prediction (elems X) w0 w1 b"
  let ?r = "residual (elems X) (elems y) w0 w1 b"
  let ?hout = "AddmmBackward (Leaf bi) NoGrad X (TBackward (Leaf wi)) \<lparr>shape = [2, 1], elems = [w0, w1]\<rparr>"
  let ?vout = "\<lparr>shape = [m, 1], elems = map ?p [0..<m]\<rparr>"
  let ?l = "\<lparr>val = \<lparr>shape = [], elems = [sse m (elems X) (elems y) w0 w1 b]\<rparr>,
             history = MseLossBackward ?hout ?vout y\<rparr>"
  have f: "forward net (plain X) = Inr \<lparr>val = ?vout, history = ?hout\<rparr>"
    using forward_batch [of net wi w0 w1 gw bi b gb X m] net X by simp
  have l: "MSELoss_sum \<lparr>val = ?vout, history = ?hout\<rparr> y = Inr ?l"
    using MSELoss_sum_batch [of y m ?p ?hout] y
    by (simp add: record1_def sse_def residual_def)
  let ?g1 = "\<lparr>shape = [m, 1], elems = map (\<lambda>i. 2 * ?r i) [0..<m]\<rparr>"
  have g1: "scalar_mul (hd (elems \<lparr>shape = [], elems = [1]\<rparr>)) (scalar_mul 2 (sub_t ?vout y)) = ?g1"
    using sub_scaled [of y m ?p] y by (simp add: residual_def)
  have gbias: "\<lparr>shape = [shape ?g1 ! 1], elems = column_sums (shape ?g1 ! 0) (shape ?g1 ! 1) (elems ?g1)\<rparr> =
               \<lparr>shape = [1], elems = [\<Sum>i\<leftarrow>[0..<m]. 2 * ?r i]\<rparr>"
    by (simp add: column_sums_column)
  have gw: "transposed (product (transposed X) ?g1) =
      \<lparr>shape = [1, 2],
       elems = [\<Sum>i\<leftarrow>[0..<m]. elems X ! (i * 2) * (2 * ?r i),
                \<Sum>i\<leftarrow>[0..<m]. elems X ! (i * 2 + 1) * (2 * ?r i)]\<rparr>"
    using product_transposed_batch [OF X, of "\<lambda>i. 2 * ?r i"] by (simp add: transposed_column)
  have comm: "(\<Sum>i\<leftarrow>[0..<m]. elems X ! k i * (2 * ?r i)) = (\<Sum>i\<leftarrow>[0..<m]. 2 * ?r i * elems X ! k i)" for k :: "nat \<Rightarrow> nat"
    by (intro sum_list_cong_upt) simp
  have bw: "backward ?l (grads_of (zero_grad net)) =
      Inr (((\<lambda>i. None)(bi := Some \<lparr>shape = [1], elems = [\<Sum>i\<leftarrow>[0..<m]. 2 * ?r i]\<rparr>))
             (wi := Some \<lparr>shape = [1, 2],
                elems = [\<Sum>i\<leftarrow>[0..<m]. 2 * ?r i * elems X ! (i * 2),
                         \<Sum>i\<leftarrow>[0..<m]. 2 * ?r i * elems X ! (i * 2 + 1)]\<rparr>))"
    unfolding backward_def grads_of_zero_grad
    using g1 gbias gw comm [of "\<lambda>i. i * 2"] comm [of "\<lambda>i. i * 2 + 1"] ids by simp
  have st: "step lr (with_grads
         (((\<lambda>i. None)(bi := Some \<lparr>shape = [1], elems = [\<Sum>i\<leftarrow>[0..<m]. 2 * ?r i]\<rparr>))
             (wi := Some \<lparr>shape = [1, 2],
                elems = [\<Sum>i\<leftarrow>[0..<m]. 2 * ?r i * elems X ! (i * 2),
                         \<Sum>i\<leftarrow>[0..<m]. 2 * ?r i * elems X ! (i * 2 + 1)]\<rparr>))
         (zero_grad net)) =
       \<lparr>layer1 =
            \<lparr>weight = \<lparr>ident = wi,
                       data = \<lparr>shape = [1, 2],
                               elems = [w0 - lr * (\<Sum>i\<leftarrow>[0..<m]. 2 * ?r i * elems X ! (i * 2)),
                                        w1 - lr * (\<Sum>i\<leftarrow>[0..<m]. 2 * ?r i * elems X ! (i * 2 + 1))]\<rparr>,
                       grad = Some \<lparr>shape = [1, 2],
                               elems = [\<Sum>i\<leftarrow>[0..<m]. 2 * ?r i * elems X ! (i * 2),
                                        \<Sum>i\<leftarrow>[0..<m]. 2 * ?r i * elems X ! (i * 2 + 1)]\<rparr>\<rparr>,
             bias = \<lparr>ident = bi,
                     data = \<lparr>shape = [1], elems = [b - lr * (\<Sum>i\<leftarrow>[0..<m]. 2 * ?r i)]\<rparr>,
                     grad = Some \<lparr>shape = [1], elems = [\<Sum>i\<leftarrow>[0..<m]. 2 * ?r i]\<rparr>\<rparr>\<rparr>\<rparr>"
    using ids by (simp add: net zero_grad_def with_grads_def step_def sgd_update_def sub_t_def scalar_mul_def)
  show ?thesis
    unfolding train_step_def Let_def f sum.case l bw st by (rule refl)
qed


subsection \<open>Reading the data\<close>

text \<open>
  C3. \<open>load_array(data_arrays, batch_size, is_train)\<close> is
  \<open>DataLoader(TensorDataset(features, labels), batch_size, shuffle=True)\<close> on the
  module-level tensors: the data set is made of \<open>features\<close> and \<open>labels\<close>, not of
  \<open>data_arrays\<close>, the batch size is the one given and \<open>shuffle\<close> is \<open>True\<close>. Two calls
  that differ only in \<open>data_arrays\<close> or in \<open>is_train\<close> give the same result.
\<close>

theorem load_array_ignores_arguments:
  "load_array TensorDataset DataLoader g data_arrays batch_size is_train =
     (case TensorDataset [features g, labels g] of
        Inl e \<Rightarrow> Inl e
      | Inr dataset \<Rightarrow> DataLoader dataset batch_size True) \<and>
   load_array TensorDataset DataLoader g data_arrays batch_size is_train =
     load_array TensorDataset DataLoader g data_arrays' batch_size is_train'"
  by (simp add: load_array_def sum_case_id split: sum.splits)

subsection \<open>The models\<close>

text \<open>
  C6. \<open>LinearRegressionModel.forward(x)\<close> is its layer \<open>layer1\<close> applied to \<open>x\<close>, and the
  softmax network is \<open>x.view(-1, 784)\<close> followed by its linear layer, with nothing else
  in either forward pass. Each is one affine map: with a weight of shape \<open>(1, 2)\<close> and a
  bias of shape \<open>(1)\<close>, an input of \<open>n\<close> rows of length 2 gives the \<open>n\<close> values
  \<open>x[r] W\<^sup>T + b\<close>; with a weight of shape \<open>(10, 784)\<close> and a bias of shape \<open>(10)\<close>, an
  input of \<open>784 * n\<close> elements gives \<open>n\<close> rows of the 10 values \<open>x[r] W\<^sup>T + b\<close>.
\<close>

theorem models_are_single_affine_maps:
  "forward self x = Linear_forward (layer1 self) x \<and>
   Sequential_forward [Reshape, LinearModule l] x =
     (case view_rows x 784 of Inl e \<Rightarrow> Inl e | Inr r \<Rightarrow> Linear_forward l r) \<and>
   (shape (data (weight (layer1 self))) = [1, 2] \<and> shape (data (bias (layer1 self))) = [1] \<and>
    shape (val x) = [n, 2] \<longrightarrow>
      (\<exists>v. forward self x = Inr v \<and> shape (val v) = [n, 1] \<and> length (elems (val v)) = n \<and>
         (\<forall>r<n. elems (val v) ! r =
            (\<Sum>j\<leftarrow>[0..<2]. elems (val x) ! (r * 2 + j) * elems (data (weight (layer1 self))) ! j)
            + elems (data (bias (layer1 self))) ! 0))) \<and>
   (shape (data (weight l)) = [10, 784] \<and> shape (data (bias l)) = [10] \<and>
    prod_list (shape (val x)) = 784 * n \<longrightarrow>
      (\<exists>v. Sequential_forward [Reshape, LinearModule l] x = Inr v \<and> shape (val v) = [n, 10] \<and>
         length (elems (val v)) = n * 10 \<and>
         (\<forall>r<n. \<forall>c<10. elems (val v) ! (r * 10 + c) =
            (\<Sum>j\<leftarrow>[0..<784]. elems (val x) ! (r * 784 + j) * elems (data (weight l)) ! (c * 784 + j))
            + elems (data (bias l)) ! c)))"
proof (intro conjI impI)
  show "forward self x = Linear_forward (layer1 self) x"
    by (simp add: forward_def sum_case_id)
  show "Sequential_forward [Reshape, LinearModule l] x =
     (case view_rows x 784 of Inl e \<Rightarrow> Inl e | Inr r \<Rightarrow> Linear_forward l r)"
    by (simp add: Reshape_forward_def sum_case_id split: sum.splits)
next
  assume a: "shape (data (weight (layer1 self))) = [1, 2] \<and> shape (data (bias (layer1 self))) = [1] \<and>
    shape (val x) = [n, 2]"
  obtain v where v: "Linear_forward (layer1 self) x = Inr v" "shape (val v) = [n, 1]"
    "length (elems (val v)) = n * 1"
    and el: "\<forall>r<n. \<forall>c<1. elems (val v) ! (r * 1 + c) =
               (\<Sum>j\<leftarrow>[0..<2]. elems (val x) ! (r * 2 + j) * elems (data (weight (layer1 self))) ! (c * 2 + j))
               + elems (data (bias (layer1 self))) ! c"
    using Linear_forward_affine [of "layer1 self" 1 2 x n] a by blast
  have "\<forall>r<n. elems (val v) ! r =
            (\<Sum>j\<leftarrow>[0..<2]. elems (val x) ! (r * 2 + j) * elems (data (weight (layer1 self))) ! j)
            + elems (data (bias (layer1 self))) ! 0"
    using el by simp
  then show "\<exists>v. forward self x = Inr v \<and> shape (val v) = [n, 1] \<and> length (elems (val v)) = n \<and>
         (\<forall>r<n. elems (val v) ! r =
            (\<Sum>j\<leftarrow>[0..<2]. elems (val x) ! (r * 2 + j) * elems (data (weight (layer1 self))) ! j)
            + elems (data (bias (layer1 self))) ! 0)"
    using v by (intro exI [of _ v]) (simp add: forward_def)
next
  assume a: "shape (data (weight l)) = [10, 784] \<and> shape (data (bias l)) = [10] \<and>
    prod_list (shape (val x)) = 784 * n"
  define r where "r = \<lparr>val = \<lparr>shape = [n, 784], elems = elems (val x)\<rparr>,
                        history = record1 (history x) (ViewBackward (history x) (shape (val x)))\<rparr>"
  have vr: "view_rows x 784 = Inr r"
    using a by (simp add: view_rows_def r_def)
  have sr: "shape (val r) = [n, 784]" and er: "elems (val r) = elems (val x)"
    by (simp_all add: r_def)
  obtain v where v: "Linear_forward l r = Inr v" "shape (val v) = [n, 10]"
    "length (elems (val v)) = n * 10"
    and el: "\<forall>q<n. \<forall>c<10. elems (val v) ! (q * 10 + c) =
               (\<Sum>j\<leftarrow>[0..<784]. elems (val r) ! (q * 784 + j) * elems (data (weight l)) ! (c * 784 + j))
               + elems (data (bias l)) ! c"
    using Linear_forward_affine [of l 10 784 r n] a sr by blast
  show "\<exists>v. Sequential_forward [Reshape, LinearModule l] x = Inr v \<and> shape (val v) = [n, 10] \<and>
         length (elems (val v)) = n * 10 \<and>
         (\<forall>r<n. \<forall>c<10. elems (val v) ! (r * 10 + c) =
            (\<Sum>j\<leftarrow>[0..<784]. elems (val x) ! (r * 784 + j) * elems (data (weight l)) ! (c * 784 + j))
            + elems (data (bias l)) ! c)"
    using v el vr by (intro exI [of _ v]) (simp add: Reshape_forward_def er)
qed

lemma new_Linear_shapes:
  "shape (data (weight (new_Linear i a b init))) = [b, a]"
  "shape (data (bias (new_Linear i a b init))) = [b]"
  by (simp_all add: new_Linear_def)

lemma image_example_shape: "shape (val image_example) = [1, 28, 28]"
  unfolding image_example_def plain_def by (simp only: variable.simps tensor.simps)

theorem models_are_single_affine_maps_witness:
  "(\<exists>v. forward net_example (plain X_example) = Inr v \<and> shape (val v) = [2, 1]) \<and>
   (\<exists>v. Sequential_forward (softmax_net count_from_1) image_example = Inr v \<and>
      shape (val v) = [1, 10])"
proof -
  have a: "shape (data (weight (layer1 net_example))) = [1, 2] \<and>
           shape (data (bias (layer1 net_example))) = [1] \<and>
           shape (val (plain X_example)) = [2, 2]"
    by (simp add: net_example_def LinearRegressionModel_init_def new_Linear_shapes plain_def
        X_example_def)
  have b: "shape (data (weight (new_Linear 0 784 10 count_from_1))) = [10, 784] \<and>
           shape (data (bias (new_Linear 0 784 10 count_from_1))) = [10] \<and>
           prod_list (shape (val image_example)) = 784 * 1"
    by (simp add: new_Linear_shapes image_example_shape)
  obtain v where "forward net_example (plain X_example) = Inr v" "shape (val v) = [2, 1]"
    using models_are_single_affine_maps
      [of net_example "plain X_example" "new_Linear 0 784 10 count_from_1" 2,
        THEN conjunct2, THEN conjunct2, THEN conjunct1, THEN mp, OF a]
    by blast
  moreover
  obtain u where "Sequential_forward [Reshape, LinearModule (new_Linear 0 784 10 count_from_1)]
      image_example = Inr u" "shape (val u) = [1, 10]"
    using models_are_single_affine_maps
      [of net_example image_example "new_Linear 0 784 10 count_from_1" 1,
        THEN conjunct2, THEN conjunct2, THEN conjunct2, THEN mp, OF b]
    by blast
  ultimately show ?thesis unfolding softmax_net_def by blast
qed


subsection \<open>One step of training\<close>

lemma train_step_example:
  "train_step net_example X_example y_example =
     Inr (\<lparr>layer1 =
            \<lparr>weight = \<lparr>ident = 0, data = \<lparr>shape = [1, 2], elems = [- 91 / 50, - 52 / 25]\<rparr>,
                       grad = Some \<lparr>shape = [1, 2], elems = [94, 136]\<rparr>\<rparr>,
             bias = \<lparr>ident = 1, data = \<lparr>shape = [1], elems = [87 / 50]\<rparr>,
                     grad = Some \<lparr>shape = [1], elems = [42]\<rparr>\<rparr>\<rparr>\<rparr>,
          \<lparr>val = \<lparr>shape = [], elems = [233]\<rparr>,
           history = MseLossBackward
                       (AddmmBackward (Leaf 1) NoGrad \<lparr>shape = [2, 2], elems = [1, 2, 3, 4]\<rparr>
                          (TBackward (Leaf 0)) \<lparr>shape = [2, 1], elems = [1, 2]\<rparr>)
                       \<lparr>shape = [2, 1], elems = [8, 14]\<rparr> \<lparr>shape = [2, 1], elems = [0, 1]\<rparr>\<rparr>)"
  by code_simp

text \<open>
  C4. For a mini-batch \<open>(X, y)\<close> of \<open>m\<close> rows, one step of the training loop computes
  the loss \<open>l\<close> as the sum of the squared errors \<open>sum_i (net(X)[i] - y[i])\<^sup>2\<close>, discards
  the gradients stored before, and leaves every parameter \<open>theta\<close> of the model at
  \<open>theta - 0.03 * dl/dtheta\<close>, with \<open>dl/dtheta\<close> stored as its gradient; the identities
  and shapes of the parameters do not change. Here \<open>dl/dtheta\<close> is the derivative of
  the sum of squared errors in that parameter, the others fixed.
\<close>

theorem train_step_is_one_sgd_update:
  assumes net: "net = \<lparr>layer1 =
        \<lparr>weight = \<lparr>ident = wi, data = \<lparr>shape = [1, 2], elems = [w0, w1]\<rparr>, grad = gw\<rparr>,
         bias = \<lparr>ident = bi, data = \<lparr>shape = [1], elems = [b]\<rparr>, grad = gb\<rparr>\<rparr>\<rparr>"
    and ids: "wi \<noteq> bi"
    and X: "shape X = [m, 2]"
    and y: "shape y = [m, 1]" "length (elems y) = m"
  shows "\<exists>out l g0 g1 g2.
     forward net (plain X) = Inr out \<and>
     elems (val out) = map (prediction (elems X) w0 w1 b) [0..<m] \<and>
     MSELoss_sum out y = Inr l \<and>
     val l = \<lparr>shape = [], elems = [\<Sum>i\<leftarrow>[0..<m]. (elems (val out) ! i - elems y ! i)\<^sup>2]\<rparr> \<and>
     item (val l) = sse m (elems X) (elems y) w0 w1 b \<and>
     DERIV (\<lambda>v. sse m (elems X) (elems y) v w1 b) w0 :> g0 \<and>
     DERIV (\<lambda>v. sse m (elems X) (elems y) w0 v b) w1 :> g1 \<and>
     DERIV (\<lambda>v. sse m (elems X) (elems y) w0 w1 v) b :> g2 \<and>
     train_step net X y =
       Inr (\<lparr>layer1 =
              \<lparr>weight = \<lparr>ident = wi,
                         data = \<lparr>shape = [1, 2], elems = [w0 - 3 / 100 * g0, w1 - 3 / 100 * g1]\<rparr>,
                         grad = Some \<lparr>shape = [1, 2], elems = [g0, g1]\<rparr>\<rparr>,
               bias = \<lparr>ident = bi,
                       data = \<lparr>shape = [1], elems = [b - 3 / 100 * g2]\<rparr>,
                       grad = Some \<lparr>shape = [1], elems = [g2]\<rparr>\<rparr>\<rparr>\<rparr>, l)"
proof -
  let ?p = "prediction (elems X) w0 w1 b"
  let ?out = "\<lparr>val = \<lparr>shape = [m, 1], elems = map ?p [0..<m]\<rparr>,
               history = AddmmBackward (Leaf bi) NoGrad X (TBackward (Leaf wi))
                           \<lparr>shape = [2, 1], elems = [w0, w1]\<rparr>\<rparr>"
  let ?l = "\<lparr>val = \<lparr>shape = [], elems = [sse m (elems X) (elems y) w0 w1 b]\<rparr>,
             history = MseLossBackward (history ?out) (val ?out) y\<rparr>"
  let ?g0 = "\<Sum>i\<leftarrow>[0..<m]. 2 * residual (elems X) (elems y) w0 w1 b i * elems X ! (i * 2)"
  let ?g1 = "\<Sum>i\<leftarrow>[0..<m]. 2 * residual (elems X) (elems y) w0 w1 b i * elems X ! (i * 2 + 1)"
  let ?g2 = "\<Sum>i\<leftarrow>[0..<m]. 2 * residual (elems X) (elems y) w0 w1 b i"
  have f: "forward net (plain X) = Inr ?out"
    using forward_batch [of net wi w0 w1 gw bi b gb X m] net X by simp
  have l: "MSELoss_sum ?out y = Inr ?l"
    using MSELoss_sum_batch [of y m ?p "history ?out"] y
    by (simp add: record1_def sse_def residual_def)
  have sq: "(\<Sum>i\<leftarrow>[0..<m]. (elems (val ?out) ! i - elems y ! i)\<^sup>2) = sse m (elems X) (elems y) w0 w1 b"
    unfolding sse_def by (intro sum_list_cong_upt) (simp add: residual_def)
  have ts: "train_step net X y =
       Inr (\<lparr>layer1 =
              \<lparr>weight = \<lparr>ident = wi,
                         data = \<lparr>shape = [1, 2], elems = [w0 - 3 / 100 * ?g0, w1 - 3 / 100 * ?g1]\<rparr>,
                         grad = Some \<lparr>shape = [1, 2], elems = [?g0, ?g1]\<rparr>\<rparr>,
               bias = \<lparr>ident = bi,
                       data = \<lparr>shape = [1], elems = [b - 3 / 100 * ?g2]\<rparr>,
                       grad = Some \<lparr>shape = [1], elems = [?g2]\<rparr>\<rparr>\<rparr>\<rparr>, ?l)"
    using train_step_closed [OF net ids X y] by (simp add: lr_def)
  have e1: "elems (val ?out) = map ?p [0..<m]" by simp
  have e2: "val ?l = \<lparr>shape = [], elems = [\<Sum>i\<leftarrow>[0..<m]. (elems (val ?out) ! i - elems y ! i)\<^sup>2]\<rparr>"
    using sq by simp
  have e3: "item (val ?l) = sse m (elems X) (elems y) w0 w1 b" by (simp add: item_def)
  have d0: "DERIV (\<lambda>v. sse m (elems X) (elems y) v w1 b) w0 :> ?g0" by (rule sse_deriv_w0)
  have d1: "DERIV (\<lambda>v. sse m (elems X) (elems y) w0 v b) w1 :> ?g1" by (rule sse_deriv_w1)
  have d2: "DERIV (\<lambda>v. sse m (elems X) (elems y) w0 w1 v) b :> ?g2" by (rule sse_deriv_b)
  show ?thesis
    apply (rule exI [of _ ?out])
    apply (rule exI [of _ ?l])
    apply (rule exI [of _ ?g0])
    apply (rule exI [of _ ?g1])
    apply (rule exI [of _ ?g2])
    using f e1 l e2 e3 d0 d1 d2 ts apply (intro conjI)
            apply assumption+
    done
qed

theorem train_step_is_one_sgd_update_witness:
  "\<exists>l g0 g1 g2.
     DERIV (\<lambda>v. sse 2 [1, 2, 3, 4] [0, 1] v 2 3) 1 :> g0 \<and>
     DERIV (\<lambda>v. sse 2 [1, 2, 3, 4] [0, 1] 1 v 3) 2 :> g1 \<and>
     DERIV (\<lambda>v. sse 2 [1, 2, 3, 4] [0, 1] 1 2 v) 3 :> g2 \<and>
     train_step net_example X_example y_example =
       Inr (\<lparr>layer1 =
              \<lparr>weight = \<lparr>ident = 0,
                         data = \<lparr>shape = [1, 2], elems = [1 - 3 / 100 * g0, 2 - 3 / 100 * g1]\<rparr>,
                         grad = Some \<lparr>shape = [1, 2], elems = [g0, g1]\<rparr>\<rparr>,
               bias = \<lparr>ident = 1,
                       data = \<lparr>shape = [1], elems = [3 - 3 / 100 * g2]\<rparr>,
                       grad = Some \<lparr>shape = [1], elems = [g2]\<rparr>\<rparr>\<rparr>\<rparr>, l) \<and>
     g0 = 94 \<and> g1 = 136 \<and> g2 = 42 \<and> item (val l) = 233"
proof -
  have n: "net_example = \<lparr>layer1 =
        \<lparr>weight = \<lparr>ident = 0, data = \<lparr>shape = [1, 2], elems = [1, 2]\<rparr>, grad = None\<rparr>,
         bias = \<lparr>ident = 1, data = \<lparr>shape = [1], elems = [3]\<rparr>, grad = None\<rparr>\<rparr>\<rparr>"
    by code_simp
  have i: "(0::nat) \<noteq> 1" by simp
  have X: "shape X_example = [2, 2]" by (simp add: X_example_def)
  have y: "shape y_example = [2, 1]" "length (elems y_example) = 2" by (simp_all add: y_example_def)
  have ex: "elems X_example = [1, 2, 3, 4]" by (simp add: X_example_def)
  have ey: "elems y_example = [0, 1]" by (simp add: y_example_def)
  obtain out l g0 g1 g2 where
    d: "DERIV (\<lambda>v. sse 2 [1, 2, 3, 4] [0, 1] v 2 3) 1 :> g0"
       "DERIV (\<lambda>v. sse 2 [1, 2, 3, 4] [0, 1] 1 v 3) 2 :> g1"
       "DERIV (\<lambda>v. sse 2 [1, 2, 3, 4] [0, 1] 1 2 v) 3 :> g2"
    and ts: "train_step net_example X_example y_example =
       Inr (\<lparr>layer1 =
              \<lparr>weight = \<lparr>ident = 0,
                         data = \<lparr>shape = [1, 2], elems = [1 - 3 / 100 * g0, 2 - 3 / 100 * g1]\<rparr>,
                         grad = Some \<lparr>shape = [1, 2], elems = [g0, g1]\<rparr>\<rparr>,
               bias = \<lparr>ident = 1,
                       data = \<lparr>shape = [1], elems = [3 - 3 / 100 * g2]\<rparr>,
                       grad = Some \<lparr>shape = [1], elems = [g2]\<rparr>\<rparr>\<rparr>\<rparr>, l)"
    using train_step_is_one_sgd_update [OF n i X y] unfolding ex ey by blast
  have "g0 = 94 \<and> g1 = 136 \<and> g2 = 42 \<and> item (val l) = 233"
    using ts unfolding train_step_example by (auto simp: item_def)
  then show ?thesis using d ts by blast
qed


subsection \<open>The training loop\<close>

lemma batch_ok_shapes:
  assumes "batch_ok (X, y)"
  shows "\<exists>m. shape X = [m, 2] \<and> shape y = [m, 1] \<and> length (elems y) = m"
proof -
  from assms have l: "length (shape X) = 2" and s: "shape X ! 1 = 2"
    and y: "shape y = [shape X ! 0, 1]" "length (elems y) = shape X ! 0"
    by (simp_all add: batch_ok_def)
  from l obtain a c where ac: "shape X = [a, c]"
    by (cases "shape X"; cases "tl (shape X)") auto
  then show ?thesis using s y by simp
qed

lemma model_ok_record:
  assumes "model_ok net"
  shows "\<exists>wi w0 w1 gw bi b gb. wi \<noteq> bi \<and> net = \<lparr>layer1 =
        \<lparr>weight = \<lparr>ident = wi, data = \<lparr>shape = [1, 2], elems = [w0, w1]\<rparr>, grad = gw\<rparr>,
         bias = \<lparr>ident = bi, data = \<lparr>shape = [1], elems = [b]\<rparr>, grad = gb\<rparr>\<rparr>\<rparr>"
proof -
  let ?W = "weight (layer1 net)" and ?B = "bias (layer1 net)"
  from assms have sw: "shape (data ?W) = [1, 2]" and lw: "length (elems (data ?W)) = 2"
    and sb: "shape (data ?B) = [1]" and lb: "length (elems (data ?B)) = 1"
    and ne: "ident ?W \<noteq> ident ?B"
    by (simp_all add: model_ok_def)
  from lw obtain w0 w1 where ew: "elems (data ?W) = [w0, w1]"
    by (cases "elems (data ?W)"; cases "tl (elems (data ?W))") auto
  from lb obtain b where eb: "elems (data ?B) = [b]"
    by (cases "elems (data ?B)") auto
  have dw: "data ?W = \<lparr>shape = [1, 2], elems = [w0, w1]\<rparr>" using sw ew by simp
  have db: "data ?B = \<lparr>shape = [1], elems = [b]\<rparr>" using sb eb by simp
  have W: "?W = \<lparr>ident = ident ?W, data = \<lparr>shape = [1, 2], elems = [w0, w1]\<rparr>, grad = grad ?W\<rparr>"
    using dw by simp
  have B: "?B = \<lparr>ident = ident ?B, data = \<lparr>shape = [1], elems = [b]\<rparr>, grad = grad ?B\<rparr>"
    using db by simp
  have "layer1 net = \<lparr>weight = ?W, bias = ?B\<rparr>" by simp
  then have "net = \<lparr>layer1 = \<lparr>weight = ?W, bias = ?B\<rparr>\<rparr>" by simp
  then have "net = \<lparr>layer1 =
        \<lparr>weight = \<lparr>ident = ident ?W, data = \<lparr>shape = [1, 2], elems = [w0, w1]\<rparr>, grad = grad ?W\<rparr>,
         bias = \<lparr>ident = ident ?B, data = \<lparr>shape = [1], elems = [b]\<rparr>, grad = grad ?B\<rparr>\<rparr>\<rparr>"
    using W B by simp
  then show ?thesis using ne by blast
qed

lemma train_step_params:
  assumes "model_ok net" and "batch_ok (X, y)"
  shows "\<exists>net' l. train_step net X y = Inr (net', l) \<and> model_ok net' \<and>
           params net' = sgd_params (params net) (X, y)"
proof -
  obtain wi w0 w1 gw bi b gb where ids: "wi \<noteq> bi" and net: "net = \<lparr>layer1 =
        \<lparr>weight = \<lparr>ident = wi, data = \<lparr>shape = [1, 2], elems = [w0, w1]\<rparr>, grad = gw\<rparr>,
         bias = \<lparr>ident = bi, data = \<lparr>shape = [1], elems = [b]\<rparr>, grad = gb\<rparr>\<rparr>\<rparr>"
    using model_ok_record [OF assms(1)] by blast
  obtain m where X: "shape X = [m, 2]" and y: "shape y = [m, 1]" "length (elems y) = m"
    using batch_ok_shapes [OF assms(2)] by blast
  have p: "params net = (w0, w1, b)" by (simp add: net params_def)
  let ?g0 = "\<Sum>i\<leftarrow>[0..<m]. 2 * residual (elems X) (elems y) w0 w1 b i * elems X ! (i * 2)"
  let ?g1 = "\<Sum>i\<leftarrow>[0..<m]. 2 * residual (elems X) (elems y) w0 w1 b i * elems X ! (i * 2 + 1)"
  let ?g2 = "\<Sum>i\<leftarrow>[0..<m]. 2 * residual (elems X) (elems y) w0 w1 b i"
  define net' where "net' = \<lparr>layer1 =
        \<lparr>weight = \<lparr>ident = wi,
                   data = \<lparr>shape = [1, 2], elems = [w0 - lr * ?g0, w1 - lr * ?g1]\<rparr>,
                   grad = Some \<lparr>shape = [1, 2], elems = [?g0, ?g1]\<rparr>\<rparr>,
         bias = \<lparr>ident = bi, data = \<lparr>shape = [1], elems = [b - lr * ?g2]\<rparr>,
                 grad = Some \<lparr>shape = [1], elems = [?g2]\<rparr>\<rparr>\<rparr>\<rparr>"
  obtain l where ts: "train_step net X y = Inr (net', l)"
    using train_step_closed [OF net ids X y] unfolding net'_def by blast
  have ok: "model_ok net'" using ids by (simp add: model_ok_def net'_def)
  have "params net' = (w0 - lr * ?g0, w1 - lr * ?g1, b - lr * ?g2)"
    by (simp add: params_def net'_def)
  also have "\<dots> = sgd_params (w0, w1, b) (X, y)"
    using X by (simp add: sgd_params_def lr_def)
  finally have "params net' = sgd_params (params net) (X, y)" by (simp add: p)
  then show ?thesis using ts ok by blast
qed

lemma epoch_pass_params:
  "model_ok net \<Longrightarrow> \<forall>B\<in>set batches. batch_ok B \<Longrightarrow>
   \<exists>net'. epoch_pass net batches = Inr net' \<and> model_ok net' \<and>
          params net' = foldl sgd_params (params net) batches"
proof (induction batches arbitrary: net)
  case Nil
  then show ?case by simp
next
  case (Cons B batches)
  obtain X y where B: "B = (X, y)" by (cases B)
  obtain net1 l where s: "train_step net X y = Inr (net1, l)" and ok: "model_ok net1"
    and p1: "params net1 = sgd_params (params net) (X, y)"
    using train_step_params [of net X y] Cons.prems B by auto
  obtain net' where "epoch_pass net1 batches = Inr net'" "model_ok net'"
    "params net' = foldl sgd_params (params net1) batches"
    using Cons.IH [OF ok] Cons.prems(2) by auto
  then show ?case using B s p1 by simp
qed

lemma full_loss_value:
  assumes "model_ok net" and "batch_ok (features g, labels g)"
  shows "full_loss net g = Inr (loss_on g (params net))"
proof -
  obtain wi w0 w1 gw bi b gb where net: "net = \<lparr>layer1 =
        \<lparr>weight = \<lparr>ident = wi, data = \<lparr>shape = [1, 2], elems = [w0, w1]\<rparr>, grad = gw\<rparr>,
         bias = \<lparr>ident = bi, data = \<lparr>shape = [1], elems = [b]\<rparr>, grad = gb\<rparr>\<rparr>\<rparr>"
    using model_ok_record [OF assms(1)] by blast
  obtain m where X: "shape (features g) = [m, 2]"
    and y: "shape (labels g) = [m, 1]" "length (elems (labels g)) = m"
    using batch_ok_shapes [OF assms(2)] by blast
  have p: "params net = (w0, w1, b)" by (simp add: net params_def)
  have f: "forward net (plain (features g)) =
     Inr \<lparr>val = \<lparr>shape = [m, 1], elems = map (prediction (elems (features g)) w0 w1 b) [0..<m]\<rparr>,
          history = AddmmBackward (Leaf bi) NoGrad (features g) (TBackward (Leaf wi))
                      \<lparr>shape = [2, 1], elems = [w0, w1]\<rparr>\<rparr>"
    using forward_batch [of net wi w0 w1 gw bi b gb "features g" m] net X by simp
  show ?thesis
    using f y X MSELoss_sum_batch [of "labels g" m]
    by (simp add: full_loss_def item_def loss_on_def p sse_def residual_def)
qed

lemma upt_3: "[0..<3] = [0, 1, 2]"
  by (simp add: upt_rec)

text \<open>
  C5. The training loop makes \<open>num_epochs = 3\<close> complete passes over the data iterator:
  pass \<open>k\<close> applies the update of one step to every mini-batch the iterator yields for
  that pass, in order. After each pass, and only then, it computes the loss of the model
  as it is after that pass on the full \<open>features\<close> and \<open>labels\<close> and prints one line, so
  that exactly three lines are printed, labelled 1, 2 and 3 in this order.
\<close>

theorem training_three_epochs:
  assumes "model_ok net"
    and "\<forall>k<num_epochs. \<forall>B\<in>set (data_iter k). batch_ok B"
    and "batch_ok (features g, labels g)"
  shows "\<exists>n3.
     training data_iter g net =
       Inr (n3,
         [EpochLoss 1 (loss_on g (foldl sgd_params (params net) (data_iter 0))),
          EpochLoss 2 (loss_on g
             (foldl sgd_params (foldl sgd_params (params net) (data_iter 0)) (data_iter 1))),
          EpochLoss 3 (loss_on g
             (foldl sgd_params
                (foldl sgd_params (foldl sgd_params (params net) (data_iter 0)) (data_iter 1))
                (data_iter 2)))]) \<and>
     params n3 =
       foldl sgd_params (foldl sgd_params (foldl sgd_params (params net) (data_iter 0)) (data_iter 1))
         (data_iter 2)"
proof -
  have bk: "\<forall>B\<in>set (data_iter k). batch_ok B" if "k < 3" for k
    using assms(2) that by (simp add: num_epochs_def)
  have b: "\<forall>B\<in>set (data_iter 0). batch_ok B" "\<forall>B\<in>set (data_iter 1). batch_ok B"
    "\<forall>B\<in>set (data_iter 2). batch_ok B"
    using bk [of 0] bk [of 1] bk [of 2] by simp_all
  obtain n1 where p1: "epoch_pass net (data_iter 0) = Inr n1" and ok1: "model_ok n1"
    and q1: "params n1 = foldl sgd_params (params net) (data_iter 0)"
    using epoch_pass_params [OF assms(1) b(1)] by blast
  have f1: "full_loss n1 g = Inr (loss_on g (params n1))"
    by (rule full_loss_value [OF ok1 assms(3)])
  obtain n2 where p2: "epoch_pass n1 (data_iter 1) = Inr n2" and ok2: "model_ok n2"
    and q2: "params n2 = foldl sgd_params (params n1) (data_iter 1)"
    using epoch_pass_params [OF ok1 b(2)] by blast
  have f2: "full_loss n2 g = Inr (loss_on g (params n2))"
    by (rule full_loss_value [OF ok2 assms(3)])
  obtain n3 where p3: "epoch_pass n2 (data_iter 2) = Inr n3" and ok3: "model_ok n3"
    and q3: "params n3 = foldl sgd_params (params n2) (data_iter 2)"
    using epoch_pass_params [OF ok2 b(3)] by blast
  have f3: "full_loss n3 g = Inr (loss_on g (params n3))"
    by (rule full_loss_value [OF ok3 assms(3)])
  have "training data_iter g net =
      Inr (n3, [EpochLoss 1 (loss_on g (params n1)), EpochLoss 2 (loss_on g (params n2)),
                EpochLoss 3 (loss_on g (params n3))])"
    using p1 f1 p2 f2 p3 f3 by (simp add: training_def num_epochs_def upt_3)
  then show ?thesis using q1 q2 q3 by auto
qed

text \<open>
  On the example, a pass over both mini-batches and a pass that stopped after the first
  one leave different losses on the full data.
\<close>

lemma first_pass_loss_example:
  "loss_on globals_example (foldl sgd_params (params net_example) (data_iter_example 0)) =
     534530569 / 3125000"
  by code_simp

lemma truncated_pass_loss_example:
  "loss_on globals_example (foldl sgd_params (params net_example) (take 1 (data_iter_example 0))) =
     483737 / 2500"
  by code_simp

theorem training_three_epochs_witness:
  "\<exists>n3 l2 l3.
     training data_iter_example globals_example net_example =
       Inr (n3, [EpochLoss 1 (534530569 / 3125000), EpochLoss 2 l2, EpochLoss 3 l3]) \<and>
     534530569 / 3125000 \<noteq>
       loss_on globals_example
         (foldl sgd_params (params net_example) (take 1 (data_iter_example 0)))"
proof -
  have m: "model_ok net_example"
    by (simp add: model_ok_def net_example_def LinearRegressionModel_init_def new_Linear_def upt_rec)
  have bk: "batch_ok (X_example, y_example)" "batch_ok (X2_example, y2_example)"
    by (simp_all add: batch_ok_def X_example_def y_example_def X2_example_def y2_example_def)
  have b: "\<forall>k<num_epochs. \<forall>B\<in>set (data_iter_example k). batch_ok B"
    using bk by (simp add: data_iter_example_def)
  have g: "batch_ok (features globals_example, labels globals_example)"
    by (simp add: globals_example_def batch_ok_def)
  obtain n3 where
    t: "training data_iter_example globals_example net_example =
       Inr (n3,
         [EpochLoss 1 (loss_on globals_example
             (foldl sgd_params (params net_example) (data_iter_example 0))),
          EpochLoss 2 (loss_on globals_example
             (foldl sgd_params (foldl sgd_params (params net_example) (data_iter_example 0))
                (data_iter_example 1))),
          EpochLoss 3 (loss_on globals_example
             (foldl sgd_params
                (foldl sgd_params (foldl sgd_params (params net_example) (data_iter_example 0))
                   (data_iter_example 1))
                (data_iter_example 2)))])"
    using training_three_epochs [OF m b g] by blast
  have ne: "(534530569 / 3125000 :: real) \<noteq> 483737 / 2500" by simp
  show ?thesis
    using t ne unfolding first_pass_loss_example truncated_pass_loss_example by blast
qed


subsection \<open>The simple example of automatic differentiation\<close>

lemma transpose2_column: "length xs = n \<Longrightarrow> transpose2 n (Suc 0) xs = xs"
  by (auto simp: transpose2_def map_nth)

lemma transpose2_row: "length xs = n \<Longrightarrow> transpose2 (Suc 0) n xs = xs"
  by (auto simp: transpose2_def concat_singletons map_nth)

lemma map_nth_upt: "length xs = n \<Longrightarrow> map (\<lambda>i. h (xs ! i)) [0..<n] = map h xs"
  by (rule nth_equalityI) simp_all

text \<open>
  For every column vector \<open>x\<close>, the backward pass of \<open>2 * torch.mm(x.t(), x)\<close> stores
  \<open>4 * x\<close> for \<open>x\<close>.
\<close>

lemma column_gradient:
  assumes "length xs = n"
  shows "\<exists>xt m grads.
     tensor_t \<lparr>val = \<lparr>shape = [n, 1], elems = xs\<rparr>, history = Leaf 0\<rparr> = Inr xt \<and>
     torch_mm xt \<lparr>val = \<lparr>shape = [n, 1], elems = xs\<rparr>, history = Leaf 0\<rparr> = Inr m \<and>
     val (number_mul 2 m) = \<lparr>shape = [1, 1], elems = [2 * (\<Sum>v\<leftarrow>xs. v * v)]\<rparr> \<and>
     backward (number_mul 2 m) (\<lambda>i. None) = Inr grads \<and>
     grads 0 = Some \<lparr>shape = [n, 1], elems = map (\<lambda>v. 4 * v) xs\<rparr>"
proof -
  let ?x = "\<lparr>shape = [n, 1], elems = xs\<rparr>"
  let ?xt = "\<lparr>shape = [1, n], elems = xs\<rparr>"
  have tx: "transposed ?x = ?xt" using assms by (simp add: transposed_def transpose2_column)
  have tb: "transposed ?xt = ?x" using assms by (simp add: transposed_def transpose2_row)
  have tt: "tensor_t \<lparr>val = ?x, history = Leaf 0\<rparr> = Inr \<lparr>val = ?xt, history = TBackward (Leaf 0)\<rparr>"
    using tx by (simp add: tensor_t_def record1_def)
  have dot: "(\<Sum>j\<leftarrow>[0..<n]. xs ! j * xs ! j) = (\<Sum>v\<leftarrow>xs. v * v)"
    using map_nth_upt [OF assms, of "\<lambda>v. v * v"] by simp
  have p: "product ?xt ?x = \<lparr>shape = [1, 1], elems = [\<Sum>v\<leftarrow>xs. v * v]\<rparr>"
    using dot by (simp add: product_def mm_def)
  let ?m = "\<lparr>val = \<lparr>shape = [1, 1], elems = [\<Sum>v\<leftarrow>xs. v * v]\<rparr>,
             history = MmBackward (TBackward (Leaf 0)) ?xt (Leaf 0) ?x\<rparr>"
  have m: "torch_mm \<lparr>val = ?xt, history = TBackward (Leaf 0)\<rparr> \<lparr>val = ?x, history = Leaf 0\<rparr> = Inr ?m"
    using p by (simp add: torch_mm_def record2_def)
  have g1: "product \<lparr>shape = [1, 1], elems = [2]\<rparr> ?xt = \<lparr>shape = [1, n], elems = map (\<lambda>v. 2 * v) xs\<rparr>"
    using map_nth_upt [OF assms, of "\<lambda>v. 2 * v"] by (simp add: product_def mm_def)
  have g1t: "transposed \<lparr>shape = [1, n], elems = map (\<lambda>v. 2 * v) xs\<rparr> =
             \<lparr>shape = [n, 1], elems = map (\<lambda>v. 2 * v) xs\<rparr>"
    using assms by (simp add: transposed_def transpose2_row)
  have g2: "product ?x \<lparr>shape = [1, 1], elems = [2]\<rparr> = \<lparr>shape = [n, 1], elems = map (\<lambda>v. v * 2) xs\<rparr>"
    using map_nth_upt [OF assms, of "\<lambda>v. v * 2"] by (simp add: product_def mm_def concat_singletons)
  have sum: "add_t \<lparr>shape = [n, 1], elems = map (\<lambda>v. 2 * v) xs\<rparr> \<lparr>shape = [n, 1], elems = map (\<lambda>v. v * 2) xs\<rparr> =
             \<lparr>shape = [n, 1], elems = map (\<lambda>v. 4 * v) xs\<rparr>"
    by (simp add: add_t_def zip_map_map map_zip_map2 zip_same_conv_map)
  have b: "backward (number_mul 2 ?m) (\<lambda>i. None) =
           Inr ((\<lambda>i. None)(0 := Some \<lparr>shape = [n, 1], elems = map (\<lambda>v. 4 * v) xs\<rparr>))"
    using g1 g1t g2 sum tx tb
    by (simp add: backward_def number_mul_def record1_def scalar_mul_def)
  have v: "val (number_mul 2 ?m) = \<lparr>shape = [1, 1], elems = [2 * (\<Sum>v\<leftarrow>xs. v * v)]\<rparr>"
    by (simp add: number_mul_def scalar_mul_def)
  show ?thesis using tt m v b by auto
qed

lemma simple_example_run:
  "simple_example =
     Inr (\<lparr>val = \<lparr>shape = [4, 1], elems = [0, 1, 2, 3]\<rparr>, history = Leaf 0\<rparr>,
          \<lparr>val = \<lparr>shape = [1, 1], elems = [28]\<rparr>,
           history = MulBackward
                       (MmBackward (TBackward (Leaf 0)) \<lparr>shape = [1, 4], elems = [0, 1, 2, 3]\<rparr>
                          (Leaf 0) \<lparr>shape = [4, 1], elems = [0, 1, 2, 3]\<rparr>) 2\<rparr>,
          Some \<lparr>shape = [4, 1], elems = [0, 4, 8, 12]\<rparr>)"
  by code_simp

text \<open>
  C10. In the simple example, \<open>x\<close> is the leaf \<open>(0, 1, 2, 3)\<^sup>T\<close>; after
  \<open>y = 2 * torch.mm(x.t(), x)\<close> and \<open>y.backward()\<close> the gradient stored for \<open>x\<close> is
  \<open>(0, 4, 8, 12)\<^sup>T\<close>, which is \<open>4 * x\<close>, so that \<open>(x.grad - 4 * x).norm()\<close> is 0; and
  \<open>x.grad_fn\<close> is \<open>None\<close>, while \<open>y\<close> has a \<open>grad_fn\<close>.
\<close>

theorem simple_example_gradient:
  "\<exists>x y x_grad.
     simple_example = Inr (x, y, Some x_grad) \<and>
     val x = \<lparr>shape = [4, 1], elems = [0, 1, 2, 3]\<rparr> \<and>
     val y = \<lparr>shape = [1, 1], elems = [28]\<rparr> \<and>
     x_grad = \<lparr>shape = [4, 1], elems = [0, 4, 8, 12]\<rparr> \<and>
     x_grad = scalar_mul 4 (val x) \<and>
     norm_t (sub_t x_grad (scalar_mul 4 (val x))) = 0 \<and>
     gradient_check x x_grad \<and>
     grad_fn (history x) = None \<and>
     grad_fn (history y) = Some ''MulBackward''"
  unfolding simple_example_run
  by (simp add: scalar_mul_def sub_t_def norm_t_def gradient_check_def)


end
